theory Spec2Isabelle
  imports Complex_Main
begin

section \<open>JavaScript values\<close>

text \<open>
  A JavaScript Number is modelled as a real number or one of the three IEEE special
  values. The operators \<open>js_mul\<close>, \<open>js_div\<close> and \<open>js_add\<close> of this section give the exact
  result on finite operands; they represent every place where the source can produce
  Infinity or NaN from finite operands (division by zero, zero times Infinity, Infinity
  minus Infinity) and the fact that every comparison with NaN is false. The operators of
  the next section round the exact result to double precision, as the machine does. The
  sign of zero is not represented.
\<close>

datatype jsnum = Finite real | PosInf | NegInf | NaN

fun js_mul :: "jsnum \<Rightarrow> jsnum \<Rightarrow> jsnum" where
  "js_mul NaN y = NaN"
| "js_mul x NaN = NaN"
| "js_mul (Finite a) (Finite b) = Finite (a * b)"
| "js_mul (Finite a) PosInf = (if a = 0 then NaN else if 0 < a then PosInf else NegInf)"
| "js_mul (Finite a) NegInf = (if a = 0 then NaN else if 0 < a then NegInf else PosInf)"
| "js_mul PosInf (Finite b) = (if b = 0 then NaN else if 0 < b then PosInf else NegInf)"
| "js_mul NegInf (Finite b) = (if b = 0 then NaN else if 0 < b then NegInf else PosInf)"
| "js_mul PosInf PosInf = PosInf"
| "js_mul PosInf NegInf = NegInf"
| "js_mul NegInf PosInf = NegInf"
| "js_mul NegInf NegInf = PosInf"

fun js_div :: "jsnum \<Rightarrow> jsnum \<Rightarrow> jsnum" where
  "js_div NaN y = NaN"
| "js_div x NaN = NaN"
| "js_div (Finite a) (Finite b) =
     (if b = 0 then (if a = 0 then NaN else if 0 < a then PosInf else NegInf)
      else Finite (a / b))"
| "js_div (Finite a) PosInf = Finite 0"
| "js_div (Finite a) NegInf = Finite 0"
| "js_div PosInf (Finite b) = (if 0 \<le> b then PosInf else NegInf)"
| "js_div NegInf (Finite b) = (if 0 \<le> b then NegInf else PosInf)"
| "js_div PosInf PosInf = NaN"
| "js_div PosInf NegInf = NaN"
| "js_div NegInf PosInf = NaN"
| "js_div NegInf NegInf = NaN"

fun js_add :: "jsnum \<Rightarrow> jsnum \<Rightarrow> jsnum" where
  "js_add NaN y = NaN"
| "js_add x NaN = NaN"
| "js_add (Finite a) (Finite b) = Finite (a + b)"
| "js_add (Finite a) PosInf = PosInf"
| "js_add (Finite a) NegInf = NegInf"
| "js_add PosInf (Finite b) = PosInf"
| "js_add NegInf (Finite b) = NegInf"
| "js_add PosInf PosInf = PosInf"
| "js_add PosInf NegInf = NaN"
| "js_add NegInf PosInf = NaN"
| "js_add NegInf NegInf = NegInf"

fun js_neg :: "jsnum \<Rightarrow> jsnum" where
  "js_neg (Finite a) = Finite (- a)"
| "js_neg PosInf = NegInf"
| "js_neg NegInf = PosInf"
| "js_neg NaN = NaN"

definition js_sub :: "jsnum \<Rightarrow> jsnum \<Rightarrow> jsnum" where
  "js_sub x y = js_add x (js_neg y)"

text \<open>\<open>x < y\<close> of JavaScript; \<open>x > y\<close> is \<open>js_lt y x\<close>.\<close>

fun js_lt :: "jsnum \<Rightarrow> jsnum \<Rightarrow> bool" where
  "js_lt NaN y = False"
| "js_lt x NaN = False"
| "js_lt (Finite a) (Finite b) = (a < b)"
| "js_lt (Finite a) PosInf = True"
| "js_lt (Finite a) NegInf = False"
| "js_lt PosInf y = False"
| "js_lt NegInf (Finite b) = True"
| "js_lt NegInf PosInf = True"
| "js_lt NegInf NegInf = False"

definition js_gt :: "jsnum \<Rightarrow> jsnum \<Rightarrow> bool" where
  "js_gt x y = js_lt y x"

text \<open>\<open>x <= y\<close> and \<open>x >= y\<close> of JavaScript.\<close>

definition js_le :: "jsnum \<Rightarrow> jsnum \<Rightarrow> bool" where
  "js_le x y = (x \<noteq> NaN \<and> y \<noteq> NaN \<and> (x = y \<or> js_lt x y))"

definition js_ge :: "jsnum \<Rightarrow> jsnum \<Rightarrow> bool" where
  "js_ge x y = js_le y x"


text \<open>Truthiness of a Number: every value but 0 and NaN.\<close>

definition js_truthy :: "jsnum \<Rightarrow> bool" where
  "js_truthy x = (x \<noteq> NaN \<and> x \<noteq> Finite 0)"

text \<open>The real number that a finite Number denotes (and 0 for the special values).\<close>

definition number_of :: "jsnum \<Rightarrow> real" where
  "number_of x = (case x of Finite r \<Rightarrow> r | _ \<Rightarrow> 0)"

section \<open>Double-precision arithmetic\<close>

text \<open>
  A Number is an IEEE 754 binary64 value: an integer of at most 53 bits times a power of
  two not below \<open>2^-1074\<close>, of magnitude below \<open>2^1024\<close>. \<open>binade n x\<close> searches, in at
  most \<open>n\<close> steps, the exponent \<open>e\<close> with \<open>2^e \<le> x < 2^(e+1)\<close> of a positive \<open>x\<close>.
\<close>

fun binade :: "nat \<Rightarrow> real \<Rightarrow> int" where
  "binade 0 x = 0"
| "binade (Suc n) x =
     (if 2 \<le> x then binade n (x / 2) + 1
      else if x < 1 then binade n (2 * x) - 1
      else 0)"

definition pow2 :: "int \<Rightarrow> real" where
  "pow2 e = (if 0 \<le> e then 2 ^ nat e else 1 / 2 ^ nat (- e))"

text \<open>The nearest integer, a tie going to the even one.\<close>

definition round_half_even :: "real \<Rightarrow> int" where
  "round_half_even x =
     (let f = \<lfloor>x\<rfloor>; d = x - of_int f
      in if d < 1 / 2 then f
         else if 1 / 2 < d then f + 1
         else if even f then f else f + 1)"

text \<open>
  Rounding of a real result to the nearest Number, ties to even: the result is a multiple
  of the unit in the last place of its binade (the binade of exponent -1022 for the
  subnormal numbers), and a result that rounds to \<open>2^1024\<close> or beyond is infinite.
\<close>

definition round64 :: "real \<Rightarrow> jsnum" where
  "round64 x =
     (let e = max (binade 1100 \<bar>x\<bar>) (- 1022);
          ulp = pow2 (e - 52);
          r = of_int (round_half_even (x / ulp)) * ulp
      in if 2 ^ 1024 \<le> \<bar>r\<bar> then (if 0 < x then PosInf else NegInf) else Finite r)"

definition rounded :: "jsnum \<Rightarrow> jsnum" where
  "rounded x = (case x of Finite r \<Rightarrow> round64 r | _ \<Rightarrow> x)"

text \<open>The operators \<open>*\<close>, \<open>/\<close> and \<open>+\<close> on Numbers: the exact result, rounded.\<close>

definition dbl_mul :: "jsnum \<Rightarrow> jsnum \<Rightarrow> jsnum" where
  "dbl_mul x y = rounded (js_mul x y)"

definition dbl_div :: "jsnum \<Rightarrow> jsnum \<Rightarrow> jsnum" where
  "dbl_div x y = rounded (js_div x y)"

definition dbl_add :: "jsnum \<Rightarrow> jsnum \<Rightarrow> jsnum" where
  "dbl_add x y = rounded (js_add x y)"

text \<open>The Number that the literal \<open>0.1\<close> denotes: the Number nearest to one tenth.\<close>

definition tenth :: real where
  "tenth = 3602879701896397 / 36028797018963968"

section \<open>Strings\<close>

text \<open>\<open>String.prototype.toLowerCase\<close> on ASCII text (addresses are hexadecimal).\<close>

definition lowerChar :: "char \<Rightarrow> char" where
  "lowerChar c =
     (case map_of (zip ''ABCDEFGHIJKLMNOPQRSTUVWXYZ'' ''abcdefghijklmnopqrstuvwxyz'') c of
        Some d \<Rightarrow> d
      | None \<Rightarrow> c)"

definition toLowerCase :: "string \<Rightarrow> string" where
  "toLowerCase s = map lowerChar s"

section \<open>Configuration constants\<close>

text \<open>
  \<open>config/constants.js\<close> is not part of the sources at hand; the token addresses of
  \<open>CONTRACTS\<close> and the default price \<open>DEFAULT_PRICES.BNB\<close> are parameters of every
  definition that reads them.
\<close>

record contracts =
  WBNB :: string
  USDC :: string
  BUSD :: string
  DAI :: string
  USDT :: string
  CAKE :: string

text \<open>The addresses that \<open>MultiHopRouterService.js\<close> lists under \<open>INTERMEDIATES\<close>.\<close>

definition bsc_contracts :: contracts where
  "bsc_contracts = \<lparr>
     WBNB = ''0xbb4CdB9CBd36B01bD1cBaEBF2De08d9173bc095c'',
     USDC = ''0x8AC76a51cc950d9822D68b83fE1Ad97B32Cd580d'',
     BUSD = ''0xe9e7CEA3DedcA5984780Bafc599bD69ADd087D56'',
     DAI = ''0x1AF3F329e8BE154074D8769D1FFa4eE058B1DBc3'',
     USDT = ''0x55d398326f99059fF775485246999027B3197955'',
     CAKE = ''0x0E09FaBB73Bd3Ade0a17ECC321fD13a19e81cE82'' \<rparr>"

section \<open>PriceService: state\<close>

text \<open>
  The fields of \<open>PriceService\<close> that the code reads and writes. \<open>basePrices\<close> is keyed
  by lowercased address; cached prices are finite numbers. Times are milliseconds.
  \<open>PriceService\<close> computes with the rounding operators. Its two setters, which nothing
  in the sources calls, are not modelled.
\<close>

record price_service =
  basePrices :: "string \<Rightarrow> real option"
  bnbPriceUSD :: real
  lastPriceUpdate :: int
  priceUpdateInterval :: int
  fetchLock :: bool

text \<open>
  The constructor, at time \<open>now\<close>. Were two addresses of \<open>CONTRACTS\<close> equal, the
  later key of the object literal would win, hence the reversal.
\<close>

definition new_PriceService :: "contracts \<Rightarrow> real \<Rightarrow> int \<Rightarrow> price_service" where
  "new_PriceService c default_bnb now = \<lparr>
     basePrices = map_of (rev
       [(toLowerCase (WBNB c), default_bnb),
        (toLowerCase (USDC c), 1),
        (toLowerCase (BUSD c), 1),
        (toLowerCase (DAI c), 1),
        (toLowerCase (USDT c), 1),
        (toLowerCase (CAKE c), 5 / 2)]),
     bnbPriceUSD = default_bnb,
     lastPriceUpdate = now,
     priceUpdateInterval = 60000,
     fetchLock = False \<rparr>"

definition getBNBPrice :: "price_service \<Rightarrow> real" where
  "getBNBPrice ps = bnbPriceUSD ps"

text \<open>\<open>basePrices[key] || 0\<close>.\<close>

definition basePrice_or_zero :: "price_service \<Rightarrow> string \<Rightarrow> real" where
  "basePrice_or_zero ps key = (case basePrices ps key of None \<Rightarrow> 0 | Some p \<Rightarrow> p)"

section \<open>PriceService: refreshing the prices from the chain\<close>


text \<open>
  One entry of the result of \<open>aggregate3\<close> together with what decoding it gives:
  the call failed, or it succeeded with bytes that \<open>decodeFunctionResult\<close> rejects
  (it throws), or it succeeded and decodes to a value.
\<close>

datatype 'a call_result = CallFailed | Undecodable | Decoded 'a











section \<open>PoolAnalyzer: pool value of a V2 pool\<close>

text \<open>
  Token metadata as \<open>enrichPoolData\<close> passes it on: an entry of the token-info table,
  or the fallback object, which has no \<open>address\<close> field.
\<close>

record token_info =
  address :: "string option"
  symbol :: string
  name :: string
  decimals :: nat

text \<open>
  A token inside a pool object, \<open>{ address: poolData.token0, ...token0Info }\<close>: the
  address is always present.
\<close>

record pool_token =
  tok_address :: string
  tok_symbol :: string
  tok_name :: string
  tok_decimals :: nat

text \<open>\<open>info.address?.toLowerCase() || ''\<close>.\<close>

definition address_key :: "token_info \<Rightarrow> string" where
  "address_key info = (case address info of None \<Rightarrow> [] | Some a \<Rightarrow> toLowerCase a)"

definition calculatePoolValue ::
  "price_service \<Rightarrow> jsnum \<Rightarrow> jsnum \<Rightarrow> token_info \<Rightarrow> token_info \<Rightarrow> jsnum \<times> jsnum" where
  "calculatePoolValue ps reserve0 reserve1 token0Info token1Info =
     (let bnbPrice = Finite (getBNBPrice ps);
          token0Price = Finite (basePrice_or_zero ps (address_key token0Info));
          token1Price = Finite (basePrice_or_zero ps (address_key token1Info));
          totalValueUSD =
            (if js_gt token0Price (Finite 0) \<and> js_gt token1Price (Finite 0) then
               js_add (js_mul reserve0 token0Price) (js_mul reserve1 token1Price)
             else if js_gt token0Price (Finite 0) then
               (let token0Value = js_mul reserve0 token0Price;
                    derivedToken1Price =
                      (if js_gt reserve0 (Finite 0)
                       then js_mul (js_div reserve0 reserve1) token0Price
                       else Finite 0);
                    token1Value = js_mul reserve1 derivedToken1Price
                in js_add token0Value token1Value)
             else if js_gt token1Price (Finite 0) then
               (let token1Value = js_mul reserve1 token1Price;
                    derivedToken0Price =
                      (if js_gt reserve1 (Finite 0)
                       then js_mul (js_div reserve1 reserve0) token1Price
                       else Finite 0);
                    token0Value = js_mul reserve0 derivedToken0Price
                in js_add token0Value token1Value)
             else Finite 0);
          totalValueBNB =
            (if js_gt bnbPrice (Finite 0) then js_div totalValueUSD bnbPrice else Finite 0)
      in (totalValueUSD, totalValueBNB))"

text \<open>A price service as constructed, with a wrapper price of 600 USD, and two tokens.\<close>

definition sample_service :: price_service where
  "sample_service = new_PriceService bsc_contracts 600 0"

definition wbnb_info :: token_info where
  "wbnb_info = \<lparr> address = Some (WBNB bsc_contracts), symbol = ''WBNB'',
                 name = ''Wrapped BNB'', decimals = 18 \<rparr>"

definition target_info :: token_info where
  "target_info = \<lparr> address = Some ''0x00000000000000000000000000000000000000Aa'',
                   symbol = ''TKN'', name = ''Token'', decimals = 18 \<rparr>"

definition wbnb_token :: pool_token where
  "wbnb_token = \<lparr> tok_address = WBNB bsc_contracts, tok_symbol = ''WBNB'',
                  tok_name = ''Wrapped BNB'', tok_decimals = 18 \<rparr>"

definition target_token :: pool_token where
  "target_token = \<lparr> tok_address = ''0x00000000000000000000000000000000000000Aa'',
                    tok_symbol = ''TKN'', tok_name = ''Token'', tok_decimals = 18 \<rparr>"

section \<open>PoolAnalyzer: enriching the data of a pool\<close>

text \<open>The type of a pool and the status of its liquidity, as the source spells them.\<close>

datatype pool_type = V2 | V3 | OtherType

datatype liquidity_status = ACTIVE | WARNING_LIQUIDITY | LOW_LIQUIDITY | EMPTY | RUGGED | UNKNOWN

text \<open>
  The data of one pool as the multicall service returns it. A V2 entry has the two
  reserves; a V3 entry has the fee (0 when that call failed), the liquidity, \<open>slot0\<close>
  (absent when that call failed) and, once attached, the two token balances of the pool.
  \<open>pd_token0Amount\<close> and \<open>pd_token1Amount\<close> are the texts of estimated amounts that only
  other sources of pool data provide.
\<close>

record slot0 =
  slot0_sqrtPriceX96 :: nat
  slot0_tick :: int

record pool_data =
  pd_address :: string
  pd_token0 :: string
  pd_token1 :: string
  reserve0 :: "nat option"
  reserve1 :: "nat option"
  pd_fee :: "nat option"
  pd_liquidity :: "nat option"
  pd_slot0 :: "slot0 option"
  actualBalance0 :: "nat option"
  actualBalance1 :: "nat option"
  pd_token0Amount :: "real option"
  pd_token1Amount :: "real option"

text \<open>What discovery recorded for the pool: the fee tier, for a V3 pool.\<close>

record pool_info =
  info_address :: string
  info_fee :: "nat option"

record enriched_liquidity =
  raw :: nat
  token0Amount :: real
  token1Amount :: real
  totalValueUSD :: jsnum
  totalValueBNB :: jsnum
  status :: liquidity_status

text \<open>\<open>'Zero liquidity'\<close> or \<open>`Tick at boundary (${tick})`\<close>.\<close>

datatype rug_reason = ZeroLiquidity | TickAtBoundary int

record enriched_pool =
  e_address :: string
  e_type :: pool_type
  e_protocol :: string
  e_token0 :: pool_token
  e_token1 :: pool_token
  reserves :: "(nat \<times> nat) option"
  e_fee :: "real option"
  e_feePercent :: "real option"
  e_sqrtPriceX96 :: "nat option"
  e_tick :: "int option"
  isRugged :: bool
  rugReason :: "rug_reason option"
  e_liquidity :: "enriched_liquidity option"

definition fallback_info :: token_info where
  "fallback_info = \<lparr> address = None, symbol = ''UNKNOWN'', name = ''Unknown'', decimals = 18 \<rparr>"

text \<open>\<open>tokenInfo[addr?.toLowerCase()] || fallback\<close>.\<close>

definition lookup_info :: "(string \<Rightarrow> token_info option) \<Rightarrow> string \<Rightarrow> token_info" where
  "lookup_info tokenInfo addr =
     (case tokenInfo (toLowerCase addr) of None \<Rightarrow> fallback_info | Some i \<Rightarrow> i)"

text \<open>\<open>{ address: addr, ...info }\<close>: the address of the info, when it has one, wins.\<close>

definition token_of :: "string \<Rightarrow> token_info \<Rightarrow> pool_token" where
  "token_of addr info =
     \<lparr> tok_address = (case address info of None \<Rightarrow> addr | Some a \<Rightarrow> a),
       tok_symbol = symbol info, tok_name = name info, tok_decimals = decimals info \<rparr>"

text \<open>\<open>Number(ethers.formatUnits(amount, decimals))\<close>.\<close>

definition formatUnits :: "nat \<Rightarrow> nat \<Rightarrow> real" where
  "formatUnits amount dec = real amount / 10 ^ dec"

definition or_zero :: "nat option \<Rightarrow> nat" where
  "or_zero x = (case x of None \<Rightarrow> 0 | Some n \<Rightarrow> n)"

text \<open>The status thresholds of a V2 pool, on its USD value and its two reserves.\<close>

definition v2_status :: "jsnum \<Rightarrow> real \<Rightarrow> real \<Rightarrow> liquidity_status" where
  "v2_status valueUSD reserve0Num reserve1Num =
     (if js_ge valueUSD (Finite 1000) then ACTIVE
      else if js_ge valueUSD (Finite 100) then WARNING_LIQUIDITY
      else if js_le valueUSD (Finite 0) \<and> reserve0Num \<le> 0 \<and> reserve1Num \<le> 0 then EMPTY
      else LOW_LIQUIDITY)"

definition v3_status :: "real \<Rightarrow> nat \<Rightarrow> liquidity_status" where
  "v3_status valueUSD liquidityRaw =
     (if 1000 \<le> valueUSD then ACTIVE
      else if 100 \<le> valueUSD then WARNING_LIQUIDITY
      else if liquidityRaw \<le> 0 then EMPTY
      else LOW_LIQUIDITY)"

text \<open>
  \<open>calculateV3PoolValue\<close>: the token amounts (from the balances, else from the estimated
  amounts, else from the liquidity) and their value. Every division of the source is
  guarded by a test that its divisor is positive, so the arithmetic is that of the reals.
\<close>

record v3_value =
  v3_token0Amount :: real
  v3_token1Amount :: real
  v3_totalValueUSD :: real
  v3_totalValueBNB :: real

definition v3_amounts :: "pool_data \<Rightarrow> token_info \<Rightarrow> token_info \<Rightarrow> real \<times> real" where
  "v3_amounts poolData token0Info token1Info =
     (let sqrtP = (case pd_slot0 poolData of None \<Rightarrow> 0 | Some sl \<Rightarrow> slot0_sqrtPriceX96 sl)
      in case (actualBalance0 poolData, actualBalance1 poolData) of
           (Some b0, Some b1) \<Rightarrow>
             (formatUnits b0 (decimals token0Info), formatUnits b1 (decimals token1Info))
         | _ \<Rightarrow>
             (case (pd_token0Amount poolData, pd_token1Amount poolData) of
                (Some a0, Some a1) \<Rightarrow> (a0, a1)
              | _ \<Rightarrow>
                  (let liq = or_zero (pd_liquidity poolData)
                   in if 0 < liq \<and> 0 < sqrtP then
                        (let liquidityNum = real liq;
                             sqrtPrice = real sqrtP / 2 ^ 96;
                             t0 = liquidityNum / (sqrtPrice * 10 ^ 9);
                             t1 = liquidityNum * sqrtPrice / 10 ^ 9
                         in (t0 / (10 powi (int (decimals token0Info) - 9)),
                             t1 / (10 powi (int (decimals token1Info) - 9))))
                      else (0, 0))))"

definition calculateV3PoolValue ::
  "price_service \<Rightarrow> pool_data \<Rightarrow> token_info \<Rightarrow> token_info \<Rightarrow> v3_value" where
  "calculateV3PoolValue ps poolData token0Info token1Info =
     (let bnbPrice = getBNBPrice ps;
          token0Price = basePrice_or_zero ps (address_key token0Info);
          token1Price = basePrice_or_zero ps (address_key token1Info);
          sqrtP = (case pd_slot0 poolData of None \<Rightarrow> 0 | Some sl \<Rightarrow> slot0_sqrtPriceX96 sl);
          amounts = v3_amounts poolData token0Info token1Info;
          amount0 = fst amounts;
          amount1 = snd amounts;
          sqrtPrice = real sqrtP / 2 ^ 96;
          priceRatio = sqrtPrice * sqrtPrice
                        * (10 powi (int (decimals token0Info) - int (decimals token1Info)));
          valueUSD =
            (if 0 < token0Price \<and> 0 < token1Price then
               amount0 * token0Price + amount1 * token1Price
             else if 0 < token0Price then
               (let derivedToken1Price =
                      (if 0 < sqrtP then (if 0 < priceRatio then token0Price / priceRatio else 0)
                       else if 0 < amount0 \<and> 0 < amount1 then (amount0 / amount1) * token0Price
                       else 0)
                in amount0 * token0Price + amount1 * derivedToken1Price)
             else if 0 < token1Price then
               (let derivedToken0Price =
                      (if 0 < sqrtP then priceRatio * token1Price
                       else if 0 < amount1 \<and> 0 < amount0 then (amount1 / amount0) * token1Price
                       else 0)
                in amount0 * derivedToken0Price + amount1 * token1Price)
             else 0)
      in \<lparr> v3_token0Amount = amount0, v3_token1Amount = amount1,
           v3_totalValueUSD = valueUSD,
           v3_totalValueBNB = (if 0 < bnbPrice then valueUSD / bnbPrice else 0) \<rparr>)"

text \<open>\<open>poolInfo.fee || 2500\<close> and \<open>poolData.fee || poolInfo.fee || 2500\<close>.\<close>

definition fee_or :: "nat option \<Rightarrow> real \<Rightarrow> real" where
  "fee_or fee dflt = (case fee of None \<Rightarrow> dflt | Some f \<Rightarrow> if f \<noteq> 0 then real f else dflt)"

definition MAX_TICK :: int where "MAX_TICK = 887272"

definition MIN_TICK :: int where "MIN_TICK = - 887272"

definition TICK_BOUNDARY_THRESHOLD :: int where "TICK_BOUNDARY_THRESHOLD = 100"

definition enrichPoolData ::
  "price_service \<Rightarrow> pool_data \<Rightarrow> pool_info \<Rightarrow> (string \<Rightarrow> token_info option)
     \<Rightarrow> pool_type \<Rightarrow> string \<Rightarrow> enriched_pool" where
  "enrichPoolData ps poolData poolInfo tokenInfo type proto =
     (let token0Info = lookup_info tokenInfo (pd_token0 poolData);
          token1Info = lookup_info tokenInfo (pd_token1 poolData);
          enriched = \<lparr> e_address = pd_address poolData, e_type = type, e_protocol = proto,
                       e_token0 = token_of (pd_token0 poolData) token0Info,
                       e_token1 = token_of (pd_token1 poolData) token1Info,
                       reserves = None, e_fee = None, e_feePercent = None,
                       e_sqrtPriceX96 = None, e_tick = None, isRugged = False,
                       rugReason = None, e_liquidity = None \<rparr>
      in if type = V2 then
           (let fee = fee_or (info_fee poolInfo) 2500;
                reserve0Num = formatUnits (or_zero (reserve0 poolData)) (decimals token0Info);
                reserve1Num = formatUnits (or_zero (reserve1 poolData)) (decimals token1Info);
                val = calculatePoolValue ps (Finite reserve0Num) (Finite reserve1Num)
                        token0Info token1Info
            in enriched\<lparr>
                 reserves := Some (or_zero (reserve0 poolData), or_zero (reserve1 poolData)),
                 e_fee := Some fee,
                 e_feePercent := Some (fee / 10000),
                 e_liquidity := Some \<lparr>
                   raw = or_zero (reserve0 poolData),
                   token0Amount = reserve0Num, token1Amount = reserve1Num,
                   totalValueUSD = fst val, totalValueBNB = snd val,
                   status = v2_status (fst val) reserve0Num reserve1Num \<rparr> \<rparr>)
         else if type = V3 then
           (let fee = fee_or (pd_fee poolData) (fee_or (info_fee poolInfo) 2500);
                sqrtP = (case pd_slot0 poolData of
                           None \<Rightarrow> 0 | Some sl \<Rightarrow> slot0_sqrtPriceX96 sl);
                tk = (case pd_slot0 poolData of None \<Rightarrow> 0 | Some sl \<Rightarrow> slot0_tick sl);
                liquidityRaw = or_zero (pd_liquidity poolData);
                isTickAtBoundary = (MAX_TICK - TICK_BOUNDARY_THRESHOLD \<le> tk
                                    \<or> tk \<le> MIN_TICK + TICK_BOUNDARY_THRESHOLD);
                isZeroLiquidity = (liquidityRaw = 0);
                e1 = enriched\<lparr> e_fee := Some fee, e_feePercent := Some (fee / 10000),
                               e_sqrtPriceX96 := Some sqrtP, e_tick := Some tk \<rparr>
            in if isTickAtBoundary \<or> isZeroLiquidity then
                 e1\<lparr> isRugged := True,
                     rugReason := Some (if isZeroLiquidity then ZeroLiquidity
                                        else TickAtBoundary tk),
                     e_liquidity := Some \<lparr>
                       raw = 0, token0Amount = 0, token1Amount = 0,
                       totalValueUSD = Finite 0, totalValueBNB = Finite 0,
                       status = RUGGED \<rparr> \<rparr>
               else
                 (let val = calculateV3PoolValue ps poolData token0Info token1Info
                  in e1\<lparr> e_liquidity := Some \<lparr>
                       raw = liquidityRaw,
                       token0Amount = v3_token0Amount val,
                       token1Amount = v3_token1Amount val,
                       totalValueUSD = Finite (v3_totalValueUSD val),
                       totalValueBNB = Finite (v3_totalValueBNB val),
                       status = v3_status (v3_totalValueUSD val) liquidityRaw \<rparr> \<rparr>))
         else enriched)"

section \<open>PoolAnalyzer: the pools that discovery keeps\<close>

text \<open>
  The filter at the end of \<open>discoverAllPools\<close> over the results of the batch fetch, a
  \<open>null\<close> result being \<open>None\<close>.
\<close>

definition hasLiquidity :: "enriched_pool \<Rightarrow> bool" where
  "hasLiquidity poolData =
     ((case e_liquidity poolData of None \<Rightarrow> False | Some l \<Rightarrow> raw l \<noteq> 0)
      \<or> (case reserves poolData of None \<Rightarrow> False | Some (r0, r1) \<Rightarrow> r0 \<noteq> 0 \<or> r1 \<noteq> 0)
      \<or> (case e_liquidity poolData of None \<Rightarrow> False | Some l \<Rightarrow> status l = ACTIVE))"

definition keep_pools :: "enriched_pool option list \<Rightarrow> enriched_pool list" where
  "keep_pools poolDataResults =
     concat (map (\<lambda>r. case r of None \<Rightarrow> []
                           | Some poolData \<Rightarrow> if hasLiquidity poolData then [poolData] else [])
               poolDataResults)"

section \<open>Formatted pools\<close>

text \<open>
  The pool objects that \<open>formatPoolsWithPricing\<close> builds and every later stage reads.
  Strings that hold the decimal text of a big integer (\<open>liquidity.raw\<close>, \<open>sqrtPriceX96\<close>)
  are modelled by the integer; strings that hold the text of a Number
  (\<open>liquidity.token0\<close>, \<open>liquidity.token1\<close>) by the number, \<open>parseFloat\<close> being the inverse
  of \<open>toString\<close> on them. An absent field is \<open>None\<close>. Numbers of a formatted pool are
  finite, except the price in wrapper tokens, which divides by the wrapper's USD price.
  \<open>price_usd\<close> and \<open>liq_eth\<close> are the fields \<open>price.usd\<close> and
  \<open>liquidity.eth\<close>, which the router and the price aggregation read and
  \<open>formatPoolsWithPricing\<close> never sets.
\<close>

record formatted_liquidity =
  liq_status :: liquidity_status
  usd :: real
  bnb :: real
  liq_token0 :: real
  liq_token1 :: real
  liq_raw :: nat
  liq_eth :: "real option"

record formatted_price =
  price_token0 :: real
  price_token1 :: real
  ratio :: real
  price_raw :: real
  source :: string
  inPairToken :: real
  inBNB :: jsnum
  inUSD :: real
  price_usd :: "real option"

record formatted_pool =
  pool_address :: string
  protocol :: string
  pool_type :: pool_type
  pair :: string
  pairToken :: pool_token
  pool_fee :: real
  pool_feePercent :: real
  liquidity :: formatted_liquidity
  price :: formatted_price
  token0 :: pool_token
  token1 :: pool_token
  isToken0 :: bool
  tick :: "int option"
  sqrtPriceX96 :: "nat option"

section \<open>PriceService: prices of one pool\<close>

text \<open>
  Prices computed from a pool are Numbers that may be \<open>undefined\<close> or NaN. An
  \<open>undefined\<close> operand is represented by \<open>NaN\<close>, with which it agrees under every
  operator these functions apply to it (\<open>*\<close>, \<open>/\<close>, \<open>>\<close>, \<open>||\<close>, \<open>Math.min\<close>,
  \<open>Math.max\<close>).
\<close>

definition js_or :: "jsnum \<Rightarrow> jsnum \<Rightarrow> jsnum" where
  "js_or x y = (if js_truthy x then x else y)"

fun js_min :: "jsnum \<Rightarrow> jsnum \<Rightarrow> jsnum" where
  "js_min NaN y = NaN"
| "js_min x NaN = NaN"
| "js_min x y = (if js_lt y x then y else x)"

fun js_max :: "jsnum \<Rightarrow> jsnum \<Rightarrow> jsnum" where
  "js_max NaN y = NaN"
| "js_max x NaN = NaN"
| "js_max x y = (if js_lt x y then y else x)"

definition getTokenSymbol :: "contracts \<Rightarrow> string \<Rightarrow> string" where
  "getTokenSymbol c addr =
     (case map_of (rev
        [(toLowerCase (WBNB c), ''WBNB''),
         (toLowerCase (USDC c), ''USDC''),
         (toLowerCase (USDT c), ''USDT''),
         (toLowerCase (DAI c), ''DAI''),
         (toLowerCase (BUSD c), ''BUSD''),
         (toLowerCase (CAKE c), ''CAKE'')]) (toLowerCase addr) of
        Some s \<Rightarrow> s
      | None \<Rightarrow> ''UNKNOWN'')"

record token_prices =
  priceInPairToken :: jsnum
  priceInBNB :: jsnum
  priceInUSD :: jsnum
  pairTokenSymbol :: string
  calculationMethod :: string

definition calculateTokenPrices ::
  "price_service \<Rightarrow> contracts \<Rightarrow> string \<Rightarrow> string \<Rightarrow> jsnum \<Rightarrow> bool \<Rightarrow> token_prices" where
  "calculateTokenPrices ps c targetTokenAddress pairTokenAddress poolPrice isTok0 =
     (let pairTokenPriceUSD = basePrices ps (toLowerCase pairTokenAddress);
          bnbP = Finite (bnbPriceUSD ps)
      in if toLowerCase pairTokenAddress = toLowerCase (WBNB c) then
           \<lparr> priceInPairToken = poolPrice, priceInBNB = poolPrice,
             priceInUSD = dbl_mul poolPrice bnbP,
             pairTokenSymbol = ''WBNB'', calculationMethod = ''direct-bnb'' \<rparr>
         else if pairTokenPriceUSD = Some 1 then
           \<lparr> priceInPairToken = poolPrice, priceInBNB = dbl_div poolPrice bnbP,
             priceInUSD = poolPrice,
             pairTokenSymbol = getTokenSymbol c pairTokenAddress,
             calculationMethod = ''direct-stable'' \<rparr>
         else
           (case pairTokenPriceUSD of
              Some known \<Rightarrow>
                if known \<noteq> 0 then
                  \<lparr> priceInPairToken = poolPrice,
                    priceInBNB = dbl_div (dbl_mul poolPrice (Finite known)) bnbP,
                    priceInUSD = dbl_mul poolPrice (Finite known),
                    pairTokenSymbol = getTokenSymbol c pairTokenAddress,
                    calculationMethod = ''calculated'' \<rparr>
                else
                  \<lparr> priceInPairToken = poolPrice, priceInBNB = Finite 0,
                    priceInUSD = Finite 0, pairTokenSymbol = ''UNKNOWN'',
                    calculationMethod = ''unavailable'' \<rparr>
            | None \<Rightarrow>
                \<lparr> priceInPairToken = poolPrice, priceInBNB = Finite 0,
                  priceInUSD = Finite 0, pairTokenSymbol = ''UNKNOWN'',
                  calculationMethod = ''unavailable'' \<rparr>))"

text \<open>
  What \<open>calculatePoolPrices\<close> reads of its pool argument: the type, the two tokens and
  the optional \<open>price\<close> object with its fields \<open>ratio\<close>, \<open>token0Price\<close> and
  \<open>token1Price\<close>, each \<open>NaN\<close> when absent.
\<close>

record price_fields =
  pf_ratio :: jsnum
  token0Price :: jsnum
  token1Price :: jsnum

record price_input =
  pi_type :: pool_type
  pi_token0 :: pool_token
  pi_token1 :: pool_token
  pi_price :: "price_fields option"

text \<open>
  The result of \<open>calculatePoolPrices\<close>, without \<open>displayPrice\<close> (a formatted text).
  Its \<open>pairTokenSymbol\<close> is the symbol of the pool's pair token.
\<close>

record pool_prices = token_prices +
  tokenSymbol :: string

definition poolPriceRatio :: "price_input \<Rightarrow> bool \<Rightarrow> jsnum" where
  "poolPriceRatio pool isTok0 =
     (case pi_price pool of
        None \<Rightarrow> Finite 0
      | Some pr \<Rightarrow>
          (let other = (if isTok0 then token1Price pr else token0Price pr)
           in if pi_type pool = V3 then other
              else if pi_type pool = V2 then js_or (pf_ratio pr) other
              else js_or (js_or (pf_ratio pr) other) (Finite 0)))"

definition calculatePoolPrices ::
  "price_service \<Rightarrow> contracts \<Rightarrow> price_input \<Rightarrow> string \<Rightarrow> pool_prices" where
  "calculatePoolPrices ps c pool targetTokenAddress =
     (let isTok0 = (toLowerCase (tok_address (pi_token0 pool)) = toLowerCase targetTokenAddress);
          targetToken = (if isTok0 then pi_token0 pool else pi_token1 pool);
          pairTok = (if isTok0 then pi_token1 pool else pi_token0 pool);
          prices = calculateTokenPrices ps c (tok_address targetToken) (tok_address pairTok)
                     (poolPriceRatio pool isTok0) isTok0
      in \<lparr> priceInPairToken = priceInPairToken prices,
           priceInBNB = priceInBNB prices,
           priceInUSD = priceInUSD prices,
           pairTokenSymbol = tok_symbol pairTok,
           calculationMethod = calculationMethod prices,
           tokenSymbol = tok_symbol targetToken \<rparr>)"

text \<open>A formatted pool as \<open>calculatePoolPrices\<close> sees it: its \<open>price\<close> object has a
  \<open>ratio\<close> but neither \<open>token0Price\<close> nor \<open>token1Price\<close>.\<close>

definition price_input_of :: "formatted_pool \<Rightarrow> price_input" where
  "price_input_of pool =
     \<lparr> pi_type = pool_type pool, pi_token0 = token0 pool, pi_token1 = token1 pool,
       pi_price = Some \<lparr> pf_ratio = Finite (ratio (price pool)),
                         token0Price = NaN, token1Price = NaN \<rparr> \<rparr>"

section \<open>PriceService: aggregate price over the pools of a token\<close>

record pair_entry =
  poolAddress :: string
  entry_price :: jsnum
  priceUSD :: jsnum
  priceBNB :: jsnum

record aggregate_prices =
  avgPriceUSD :: jsnum
  avgPriceBNB :: jsnum
  minPriceUSD :: jsnum
  maxPriceUSD :: jsnum
  minPriceBNB :: jsnum
  maxPriceBNB :: jsnum
  pricesByPair :: "(string \<times> pair_entry list) list"

text \<open>An element of \<open>poolsWithPrices\<close>: the prices of a pool and its two liquidities.\<close>

record priced =
  pool_prices :: pool_prices
  pw_liquidityUSD :: real
  pw_liquidityBNB :: real

text \<open>\<open>pricesByPair[key].push(entry)\<close>, the list being created on first use.\<close>

fun push_by_pair ::
  "string \<Rightarrow> pair_entry \<Rightarrow> (string \<times> pair_entry list) list \<Rightarrow> (string \<times> pair_entry list) list" where
  "push_by_pair k e [] = [(k, [e])]"
| "push_by_pair k e ((k', es) # rest) =
     (if k = k' then (k', es @ [e]) # rest else (k', es) # push_by_pair k e rest)"

definition priced_of :: "price_service \<Rightarrow> contracts \<Rightarrow> string \<Rightarrow> formatted_pool \<Rightarrow> priced" where
  "priced_of ps c tokenAddress pool =
     \<lparr> pool_prices = calculatePoolPrices ps c (price_input_of pool) tokenAddress,
       pw_liquidityUSD = usd (liquidity pool),
       pw_liquidityBNB = (case liq_eth (liquidity pool) of None \<Rightarrow> 0 | Some e \<Rightarrow> e) \<rparr>"

text \<open>The body of the first loop, for one pool.\<close>

definition first_pass_step ::
  "price_service \<Rightarrow> contracts \<Rightarrow> string \<Rightarrow> formatted_pool
     \<Rightarrow> aggregate_prices \<times> priced list \<Rightarrow> aggregate_prices \<times> priced list" where
  "first_pass_step ps c tokenAddress pool st =
     (let prices = fst st;
          x = priced_of ps c tokenAddress pool;
          pp = pool_prices x;
          p1 = prices\<lparr> pricesByPair :=
                 push_by_pair (pairTokenSymbol pp)
                   \<lparr> poolAddress = pool_address pool, entry_price = priceInPairToken pp,
                     priceUSD = priceInUSD pp, priceBNB = priceInBNB pp \<rparr>
                   (pricesByPair prices) \<rparr>;
          p2 = (if js_gt (priceInUSD pp) (Finite 0)
                then p1\<lparr> minPriceUSD := js_min (minPriceUSD p1) (priceInUSD pp),
                         maxPriceUSD := js_max (maxPriceUSD p1) (priceInUSD pp) \<rparr>
                else p1);
          p3 = (if js_gt (priceInBNB pp) (Finite 0)
                then p2\<lparr> minPriceBNB := js_min (minPriceBNB p2) (priceInBNB pp),
                         maxPriceBNB := js_max (maxPriceBNB p2) (priceInBNB pp) \<rparr>
                else p2)
      in (p3, snd st @ [x]))"

fun first_pass ::
  "price_service \<Rightarrow> contracts \<Rightarrow> string \<Rightarrow> formatted_pool list
     \<Rightarrow> aggregate_prices \<times> priced list \<Rightarrow> aggregate_prices \<times> priced list" where
  "first_pass ps c tokenAddress [] st = st"
| "first_pass ps c tokenAddress (pool # pools) st =
     first_pass ps c tokenAddress pools (first_pass_step ps c tokenAddress pool st)"

text \<open>\<open>Array.prototype.sort((a, b) => a - b)\<close> on positive numbers, by insertion.\<close>

fun insert_number :: "jsnum \<Rightarrow> jsnum list \<Rightarrow> jsnum list" where
  "insert_number x [] = [x]"
| "insert_number x (y # ys) = (if js_lt y x then y # insert_number x ys else x # y # ys)"

definition sort_numbers :: "jsnum list \<Rightarrow> jsnum list" where
  "sort_numbers xs = foldr insert_number xs []"

text \<open>The median as the source takes it: the element at index \<open>floor(n / 2)\<close> of the
  sorted positive prices, or 0 when there is none.\<close>

definition median_of :: "jsnum list \<Rightarrow> jsnum" where
  "median_of xs =
     (let valid = sort_numbers (filter (\<lambda>x. js_gt x (Finite 0)) xs)
      in if 0 < length valid then valid ! (length valid div 2) else Finite 0)"

definition within_median_band :: "jsnum \<Rightarrow> jsnum \<Rightarrow> bool" where
  "within_median_band median x =
     (js_ge x (dbl_mul median (Finite tenth)) \<and> js_le x (dbl_mul median (Finite 10)))"

text \<open>One currency of the body of the second loop: the running weighted sum and the
  running liquidity.\<close>

definition accumulate :: "jsnum \<Rightarrow> jsnum \<Rightarrow> real \<Rightarrow> jsnum \<times> jsnum \<Rightarrow> jsnum \<times> jsnum" where
  "accumulate median x liq acc =
     (if js_gt x (Finite 0) \<and> 0 < liq then
        (if median = Finite 0 \<or> within_median_band median x
         then (dbl_add (fst acc) (dbl_mul x (Finite liq)), dbl_add (snd acc) (Finite liq))
         else acc)
      else acc)"

fun second_pass ::
  "jsnum \<Rightarrow> jsnum \<Rightarrow> priced list \<Rightarrow> (jsnum \<times> jsnum) \<times> (jsnum \<times> jsnum)
     \<Rightarrow> (jsnum \<times> jsnum) \<times> (jsnum \<times> jsnum)" where
  "second_pass medianUSD medianBNB [] acc = acc"
| "second_pass medianUSD medianBNB (x # xs) acc =
     second_pass medianUSD medianBNB xs
       (accumulate medianUSD (priceInUSD (pool_prices x)) (pw_liquidityUSD x) (fst acc),
        accumulate medianBNB (priceInBNB (pool_prices x)) (pw_liquidityBNB x) (snd acc))"

definition initial_prices :: aggregate_prices where
  "initial_prices = \<lparr> avgPriceUSD = Finite 0, avgPriceBNB = Finite 0,
                       minPriceUSD = PosInf, maxPriceUSD = Finite 0,
                       minPriceBNB = PosInf, maxPriceBNB = Finite 0,
                       pricesByPair = [] \<rparr>"

definition calculateAggregatePrice ::
  "price_service \<Rightarrow> contracts \<Rightarrow> formatted_pool list \<Rightarrow> string \<Rightarrow> aggregate_prices" where
  "calculateAggregatePrice ps c pools tokenAddress =
     (let st = first_pass ps c tokenAddress pools (initial_prices, []);
          prices = fst st;
          poolsWithPrices = snd st;
          medianUSD = median_of (map (\<lambda>x. priceInUSD (pool_prices x)) poolsWithPrices);
          medianBNB = median_of (map (\<lambda>x. priceInBNB (pool_prices x)) poolsWithPrices);
          totals = second_pass medianUSD medianBNB poolsWithPrices
                   ((Finite 0, Finite 0), (Finite 0, Finite 0));
          totalWeightedUSD = fst (fst totals);
          totalLiquidityUSD = snd (fst totals);
          totalWeightedBNB = fst (snd totals);
          totalLiquidityBNB = snd (snd totals);
          p1 = (if js_gt totalLiquidityUSD (Finite 0)
                then prices\<lparr> avgPriceUSD := dbl_div totalWeightedUSD totalLiquidityUSD \<rparr>
                else prices);
          p2 = (if js_gt totalLiquidityBNB (Finite 0)
                then p1\<lparr> avgPriceBNB := dbl_div totalWeightedBNB totalLiquidityBNB \<rparr>
                else p1);
          p3 = (if minPriceUSD p2 = PosInf then p2\<lparr> minPriceUSD := Finite 0 \<rparr> else p2)
      in if minPriceBNB p3 = PosInf then p3\<lparr> minPriceBNB := Finite 0 \<rparr> else p3)"

section \<open>PoolAnalyzer: scoring a pool for a trade\<close>

text \<open>\<open>Math.round\<close>: the nearest integer, halves upwards.\<close>

definition js_round :: "real \<Rightarrow> real" where
  "js_round x = of_int \<lfloor>x + 1 / 2\<rfloor>"

text \<open>\<open>String.prototype.toUpperCase\<close> on ASCII text.\<close>

definition upperChar :: "char \<Rightarrow> char" where
  "upperChar c =
     (case map_of (zip ''abcdefghijklmnopqrstuvwxyz'' ''ABCDEFGHIJKLMNOPQRSTUVWXYZ'') c of
        Some d \<Rightarrow> d
      | None \<Rightarrow> c)"

definition toUpperCase :: "string \<Rightarrow> string" where
  "toUpperCase s = map upperChar s"

text \<open>
  \<open>this.priceService.getAggregatePrice?.()\<close>: \<open>PriceService\<close> defines no method of this
  name, so the optional call yields \<open>undefined\<close>.
\<close>

definition getAggregatePrice :: "price_service \<Rightarrow> real option" where
  "getAggregatePrice ps = None"

record safety_checks =
  safetyScore :: real
  warnings :: "string list"
  isUntradeable :: bool
  priceDeviation :: real
  sandwichRisk :: string
  v3InRange :: bool

text \<open>
  The eight checks of \<open>performSafetyChecks\<close> in the order of the source, each taking the
  running values of the local variables and returning them updated.
\<close>

definition check_v3_range :: "formatted_pool \<Rightarrow> safety_checks \<Rightarrow> safety_checks" where
  "check_v3_range pool s =
     (if pool_type pool = V3 \<and> tick pool \<noteq> None \<and> sqrtPriceX96 pool \<noteq> None
         \<and> liq_raw (liquidity pool) = 0
      then s\<lparr> warnings := warnings s @ [''V3_NO_LIQUIDITY_IN_RANGE''],
              safetyScore := safetyScore s - 50,
              v3InRange := False,
              isUntradeable := True \<rparr>
      else s)"

definition check_price_deviation ::
  "price_service \<Rightarrow> formatted_pool \<Rightarrow> safety_checks \<Rightarrow> safety_checks" where
  "check_price_deviation ps pool s =
     (if 0 < inUSD (price pool) then
        (let aggregatePrice =
               (case getAggregatePrice ps of
                  None \<Rightarrow> inUSD (price pool)
                | Some a \<Rightarrow> if a \<noteq> 0 then a else inUSD (price pool))
         in if 0 < aggregatePrice then
              (let dev = \<bar>(inUSD (price pool) - aggregatePrice) / aggregatePrice\<bar> * 100;
                   s1 = s\<lparr> priceDeviation := dev \<rparr>
               in if 10 < dev then
                    s1\<lparr> warnings := warnings s1 @ [''PRICE_MANIPULATION_RISK''],
                        safetyScore := safetyScore s1 - 40 \<rparr>
                  else if 5 < dev then
                    s1\<lparr> warnings := warnings s1 @ [''PRICE_DEVIATION_HIGH''],
                        safetyScore := safetyScore s1 - 20 \<rparr>
                  else if 2 < dev then
                    s1\<lparr> warnings := warnings s1 @ [''PRICE_DEVIATION_MODERATE''],
                        safetyScore := safetyScore s1 - 5 \<rparr>
                  else s1)
            else s)
      else s)"

definition check_sandwich :: "real \<Rightarrow> real \<Rightarrow> safety_checks \<Rightarrow> safety_checks" where
  "check_sandwich tradeAmountUSD liquidityUSD s =
     (let tradeToLiquidityRatio =
            tradeAmountUSD / (if liquidityUSD \<noteq> 0 then liquidityUSD else 1)
      in if 1 / 10 < tradeToLiquidityRatio then
           s\<lparr> sandwichRisk := ''CRITICAL'',
               warnings := warnings s @ [''SANDWICH_ATTACK_CRITICAL''],
               safetyScore := safetyScore s - 30 \<rparr>
         else if 5 / 100 < tradeToLiquidityRatio then
           s\<lparr> sandwichRisk := ''HIGH'',
               warnings := warnings s @ [''SANDWICH_ATTACK_HIGH''],
               safetyScore := safetyScore s - 15 \<rparr>
         else if 1 / 100 < tradeToLiquidityRatio then
           s\<lparr> sandwichRisk := ''MEDIUM'' \<rparr>
         else s)"

definition check_liquidity_depth :: "real \<Rightarrow> safety_checks \<Rightarrow> safety_checks" where
  "check_liquidity_depth liquidityUSD s =
     (if liquidityUSD < 1000 then
        s\<lparr> warnings := warnings s @ [''EXTREMELY_LOW_LIQUIDITY''],
            safetyScore := safetyScore s - 30 \<rparr>
      else if liquidityUSD < 10000 then
        s\<lparr> warnings := warnings s @ [''LOW_LIQUIDITY''],
            safetyScore := safetyScore s - 15 \<rparr>
      else s)"

text \<open>
  The reserve of the pair token: \<open>parseFloat\<close> of the pool's amount of the token
  that is not the target token.
\<close>

definition pairTokenAmount :: "formatted_pool \<Rightarrow> real" where
  "pairTokenAmount pool =
     (if isToken0 pool then liq_token1 (liquidity pool) else liq_token0 (liquidity pool))"

definition targetTokenAmount :: "formatted_pool \<Rightarrow> real" where
  "targetTokenAmount pool =
     (if isToken0 pool then liq_token0 (liquidity pool) else liq_token1 (liquidity pool))"

definition pairSymbol :: "formatted_pool \<Rightarrow> string" where
  "pairSymbol pool = toUpperCase (tok_symbol (pairToken pool))"

definition minPairReserve :: "string \<Rightarrow> real" where
  "minPairReserve pairSym =
     (if pairSym = ''WBNB'' then 1 / 1000
      else if pairSym = ''USDC'' \<or> pairSym = ''USDT'' \<or> pairSym = ''BUSD'' then 10
      else if pairSym = ''CAKE'' then 5
      else 10)"

definition check_rug_pull :: "formatted_pool \<Rightarrow> safety_checks \<Rightarrow> safety_checks" where
  "check_rug_pull pool s =
     (if pairTokenAmount pool < minPairReserve (pairSymbol pool) then
        s\<lparr> warnings := warnings s @ [''RUG_PULL_DETECTED''],
            safetyScore := 0,
            isUntradeable := True \<rparr>
      else s)"

definition check_status :: "formatted_pool \<Rightarrow> safety_checks \<Rightarrow> safety_checks" where
  "check_status pool s =
     (if liq_status (liquidity pool) \<noteq> ACTIVE then
        s\<lparr> warnings := warnings s @ [''POOL_INACTIVE''],
            safetyScore := safetyScore s - 20 \<rparr>
      else s)"

definition stableSymbols :: "string list" where
  "stableSymbols = [''USDC'', ''USDT'', ''DAI'', ''USDBC'', ''USDC.E'']"

definition check_pair_token :: "formatted_pool \<Rightarrow> real \<Rightarrow> safety_checks \<Rightarrow> safety_checks" where
  "check_pair_token pool tradeAmountUSD s =
     (let isStablePair = (pairSymbol pool \<in> set stableSymbols)
      in if 10000 < tradeAmountUSD \<and> \<not> isStablePair \<and> pairSymbol pool \<noteq> ''WBNB'' then
           s\<lparr> warnings := warnings s @ [''VOLATILE_PAIR_FOR_LARGE_TRADE''],
               safetyScore := safetyScore s - 10 \<rparr>
         else s)"

definition check_fee :: "formatted_pool \<Rightarrow> safety_checks \<Rightarrow> safety_checks" where
  "check_fee pool s =
     (if 10000 < pool_fee pool then
        s\<lparr> warnings := warnings s @ [''UNUSUALLY_HIGH_FEE''],
            safetyScore := safetyScore s - 15 \<rparr>
      else s)"

definition initial_checks :: safety_checks where
  "initial_checks = \<lparr> safetyScore = 100, warnings = [], isUntradeable = False,
                       priceDeviation = 0, sandwichRisk = ''LOW'', v3InRange = True \<rparr>"

definition performSafetyChecks ::
  "price_service \<Rightarrow> formatted_pool \<Rightarrow> real \<Rightarrow> real \<Rightarrow> real \<Rightarrow> safety_checks" where
  "performSafetyChecks ps pool tradeAmountUSD liquidityUSD bnbPrice =
     (let s1 = check_v3_range pool initial_checks;
          s2 = check_price_deviation ps pool s1;
          s3 = check_sandwich tradeAmountUSD liquidityUSD s2;
          s4 = check_liquidity_depth liquidityUSD s3;
          s5 = check_rug_pull pool s4;
          s6 = check_status pool s5;
          s7 = check_pair_token pool tradeAmountUSD s6;
          s8 = check_fee pool s7
      in s8\<lparr> safetyScore := max 0 (safetyScore s8),
              priceDeviation := js_round (priceDeviation s8 * 100) / 100 \<rparr>)"

definition estimateSlippage ::
  "formatted_pool \<Rightarrow> real \<Rightarrow> real \<Rightarrow> safety_checks option \<Rightarrow> real" where
  "estimateSlippage pool tradeAmountUSD liquidityUSD safetyChecks =
     (if liquidityUSD \<le> 0 then 100
      else if (case safetyChecks of None \<Rightarrow> False | Some sc \<Rightarrow> \<not> v3InRange sc) then 50
      else
        (let tradeRatio = tradeAmountUSD / liquidityUSD
         in if pool_type pool = V2 then tradeRatio * 50
            else if pool_type pool = V3 then (tradeRatio / 5) * 50
            else tradeRatio * 50))"

definition calculateRiskLevel :: "real \<Rightarrow> safety_checks \<Rightarrow> real \<Rightarrow> string" where
  "calculateRiskLevel liquidityRatio safetyChecks tradeAmountUSD =
     (let r0 = (if liquidityRatio < 5 then ''HIGH''
                else if liquidityRatio < 20 then ''MEDIUM'' else ''LOW'');
          r1 = (if safetyScore safetyChecks < 50 then ''CRITICAL''
                else if safetyScore safetyChecks < 70 \<and> r0 \<noteq> ''CRITICAL'' then ''HIGH''
                else if safetyScore safetyChecks < 85 \<and> r0 = ''LOW'' then ''MEDIUM''
                else r0);
          r2 = (if sandwichRisk safetyChecks = ''CRITICAL'' then ''CRITICAL''
                else if sandwichRisk safetyChecks = ''HIGH'' \<and> r1 \<noteq> ''CRITICAL'' then ''HIGH''
                else r1)
      in if 50000 < tradeAmountUSD \<and> r2 = ''LOW'' then ''MEDIUM'' else r2)"

record costs =
  feePercent :: real
  slippagePercent :: real
  totalCostPercent :: real
  feeCostUSD :: real
  slippageCostUSD :: real
  totalCostUSD :: real

record protection =
  recommendedMinOutputPercent :: real
  recommendedMinOutput :: real
  maxSlippageTolerance :: real

text \<open>
  The object \<open>analyzePoolForTrade\<close> returns. \<open>reasons\<close> is the list that the source
  joins into \<open>reason\<close>; \<open>safety\<close> is the record of the checks, of which the source
  copies every field but \<open>isUntradeable\<close>. \<open>liquidityRatio\<close> divides by the trade
  amount, which the callers take non-zero.
\<close>

record trade_analysis =
  score :: real
  reasons :: "string list"
  tradeable :: bool
  riskLevel :: string
  costs :: costs
  liquidityRatio :: real
  safety :: safety_checks
  protection :: protection

definition fee_reason :: "real \<Rightarrow> string" where
  "fee_reason feeFrac =
     (if feeFrac \<le> 1 / 10000 then ''Ultra-low fee (0.01%)''
      else if feeFrac \<le> 5 / 10000 then ''Low fee (0.05%)''
      else if feeFrac \<le> 3 / 1000 then ''Standard fee (0.3%)''
      else ''High fee (1%)'')"

definition slippage_reason :: "real \<Rightarrow> string" where
  "slippage_reason slip =
     (if slip < 1 / 10 then ''Minimal slippage''
      else if slip < 1 / 2 then ''Low slippage''
      else if slip < 1 then ''Moderate slippage''
      else if slip < 5 then ''High slippage warning''
      else ''DANGEROUS slippage'')"

definition liquidity_reason :: "real \<Rightarrow> string list" where
  "liquidity_reason lr =
     (if 100 < lr then [''Deep liquidity'']
      else if 20 < lr then [''Good liquidity'']
      else if lr < 5 then [''LOW LIQUIDITY'']
      else [])"

definition analyzePoolForTrade ::
  "price_service \<Rightarrow> formatted_pool \<Rightarrow> real \<Rightarrow> real \<Rightarrow> trade_analysis" where
  "analyzePoolForTrade ps pool tradeAmountUSD bnbPrice =
     (let liquidityUSD = usd (liquidity pool);
          feeFrac = (if pool_fee pool \<noteq> 0 then pool_fee pool else 3000) / 1000000;
          safetyChecks = performSafetyChecks ps pool tradeAmountUSD liquidityUSD bnbPrice;
          slippage0 = estimateSlippage pool tradeAmountUSD liquidityUSD (Some safetyChecks);
          slippage = (if 5 < priceDeviation safetyChecks
                      then slippage0 + priceDeviation safetyChecks else slippage0);
          totalCost = feeFrac * 100 + slippage;
          feeCost = tradeAmountUSD * feeFrac;
          slippageCost = tradeAmountUSD * (slippage / 100);
          totalCostAmount = feeCost + slippageCost;
          isTradeable = (\<not> isUntradeable safetyChecks \<and> 0 < liquidityUSD
                         \<and> tradeAmountUSD * (1 / 10) \<le> liquidityUSD
                         \<and> 30 \<le> safetyScore safetyChecks);
          lr = liquidityUSD / tradeAmountUSD;
          risk = calculateRiskLevel lr safetyChecks tradeAmountUSD;
          rs = [fee_reason feeFrac, slippage_reason slippage] @ liquidity_reason lr
               @ (if pool_type pool = V3 then [''Concentrated''] else [])
               @ warnings safetyChecks;
          score0 = max 0 (100 - totalCost * 10 + (if 50 < lr then 10 else 0));
          score1 = score0 * (safetyScore safetyChecks / 100);
          expectedOutput =
            tradeAmountUSD / (if inUSD (price pool) \<noteq> 0 then inUSD (price pool) else 1);
          minOutputPercent = max 95 (100 - slippage - 1);
          minOutput = expectedOutput * (minOutputPercent / 100)
      in \<lparr> score = js_round score1,
           reasons = rs,
           tradeable = isTradeable,
           riskLevel = risk,
           costs = \<lparr> feePercent = feeFrac * 100,
                      slippagePercent = slippage,
                      totalCostPercent = totalCost,
                      feeCostUSD = js_round (feeCost * 10000) / 10000,
                      slippageCostUSD = js_round (slippageCost * 10000) / 10000,
                      totalCostUSD = js_round (totalCostAmount * 10000) / 10000 \<rparr>,
           liquidityRatio = js_round (lr * 10) / 10,
           safety = safetyChecks,
           protection = \<lparr> recommendedMinOutputPercent = minOutputPercent,
                           recommendedMinOutput = js_round (minOutput * 1000000) / 1000000,
                           maxSlippageTolerance = min (slippage + 1) 10 \<rparr> \<rparr>)"

text \<open>A formatted pool: a balanced V2 pool of the target token and the wrapper.\<close>

definition balanced_pool :: formatted_pool where
  "balanced_pool = \<lparr>
     pool_address = ''0x00000000000000000000000000000000000000B1'',
     protocol = ''PancakeSwap'', pool_type = V2, pair = ''TKN/WBNB'',
     pairToken = wbnb_token, pool_fee = 3000, pool_feePercent = 3 / 10,
     liquidity = \<lparr> liq_status = ACTIVE, usd = 20000, bnb = 100 / 3,
                    liq_token0 = 5000, liq_token1 = 50 / 3, liq_raw = 5000,
                    liq_eth = None \<rparr>,
     price = \<lparr> price_token0 = 300, price_token1 = 1 / 300, ratio = 1 / 300,
                price_raw = 1 / 300, source = ''V2-reserves'', inPairToken = 1 / 300,
                inBNB = Finite (1 / 300), inUSD = 2, price_usd = None \<rparr>,
     token0 = target_token, token1 = wbnb_token, isToken0 = True,
     tick = None, sqrtPriceX96 = None \<rparr>"

section \<open>MultiHopRouterService: output of a route leg\<close>







section \<open>Notions used to state the refresh of the prices\<close>








section \<open>PoolAnalyzer: formatting the pools\<close>

text \<open>
  The price that \<open>formatPoolsWithPricing\<close> derives from the state of the pool: from the
  square-root price of a V3 pool, from the reserves of a V2 pool. An enriched pool has no
  \<open>price\<close> object, so the third alternative of the source does not apply to it.
\<close>

record raw_price =
  rp_ratio :: real
  rp_token0Price :: real
  rp_token1Price :: real
  rp_source :: string

definition no_price :: raw_price where
  "no_price = \<lparr> rp_ratio = 0, rp_token0Price = 0, rp_token1Price = 0, rp_source = ''none'' \<rparr>"

text \<open>\<open>token.decimals || 18\<close>.\<close>

definition decimals_or_18 :: "pool_token \<Rightarrow> nat" where
  "decimals_or_18 t = (if tok_decimals t \<noteq> 0 then tok_decimals t else 18)"

definition derive_price :: "enriched_pool \<Rightarrow> bool \<Rightarrow> raw_price" where
  "derive_price pool isTok0 =
     (let decimals0 = decimals_or_18 (e_token0 pool);
          decimals1 = decimals_or_18 (e_token1 pool)
      in if e_type pool = V3 \<and> e_sqrtPriceX96 pool \<noteq> None then
           (let sqrtPriceX96Num = real (the (e_sqrtPriceX96 pool))
            in if 0 < sqrtPriceX96Num then
                 (let sqrtPrice = sqrtPriceX96Num / 2 ^ 96;
                      rawPrice0 = sqrtPrice * sqrtPrice;
                      rawPrice = (if decimals0 \<noteq> decimals1
                                  then rawPrice0 * (10 powi (int decimals0 - int decimals1))
                                  else rawPrice0);
                      t1 = rawPrice;
                      t0 = (if 0 < rawPrice then 1 / rawPrice else 0)
                  in \<lparr> rp_ratio = (if isTok0 then t1 else t0),
                       rp_token0Price = t0, rp_token1Price = t1,
                       rp_source = ''V3-sqrtPriceX96'' \<rparr>)
               else no_price)
         else if e_type pool = V2 \<and> reserves pool \<noteq> None then
           (let r0 = fst (the (reserves pool));
                r1 = snd (the (reserves pool))
            in if 0 < r0 \<and> 0 < r1 then
                 (let amount0 = formatUnits r0 decimals0;
                      amount1 = formatUnits r1 decimals1
                  in if 0 < amount0 \<and> 0 < amount1 then
                       \<lparr> rp_ratio = (if isTok0 then amount1 / amount0 else amount0 / amount1),
                         rp_token0Price = amount0 / amount1,
                         rp_token1Price = amount1 / amount0,
                         rp_source = ''V2-reserves'' \<rparr>
                     else no_price)
               else no_price)
         else no_price)"

text \<open>\<open>pool.fee || (pool.feePercent ? pool.feePercent * 10000 : 3000)\<close> and
  \<open>pool.feePercent || (pool.fee ? pool.fee / 10000 : 0.3)\<close>.\<close>

definition truthy_number :: "real option \<Rightarrow> bool" where
  "truthy_number x = (case x of None \<Rightarrow> False | Some v \<Rightarrow> v \<noteq> 0)"

definition formatted_fee :: "enriched_pool \<Rightarrow> real" where
  "formatted_fee pool =
     (if truthy_number (e_fee pool) then the (e_fee pool)
      else if truthy_number (e_feePercent pool) then the (e_feePercent pool) * 10000
      else 3000)"

definition formatted_feePercent :: "enriched_pool \<Rightarrow> real" where
  "formatted_feePercent pool =
     (if truthy_number (e_feePercent pool) then the (e_feePercent pool)
      else if truthy_number (e_fee pool) then the (e_fee pool) / 10000
      else 3 / 10)"

text \<open>\<open>symbol || 'UNKNOWN'\<close>.\<close>

definition symbol_or_unknown :: "pool_token \<Rightarrow> string" where
  "symbol_or_unknown t = (if tok_symbol t \<noteq> [] then tok_symbol t else ''UNKNOWN'')"

definition format_liquidity :: "enriched_pool \<Rightarrow> formatted_liquidity" where
  "format_liquidity pool =
     (case e_liquidity pool of
        None \<Rightarrow> \<lparr> liq_status = UNKNOWN, usd = 0, bnb = 0, liq_token0 = 0, liq_token1 = 0,
                   liq_raw = 0, liq_eth = None \<rparr>
      | Some l \<Rightarrow> \<lparr> liq_status = status l,
                     usd = number_of (js_or (totalValueUSD l) (Finite 0)),
                     bnb = number_of (js_or (totalValueBNB l) (Finite 0)),
                     liq_token0 = token0Amount l, liq_token1 = token1Amount l,
                     liq_raw = raw l, liq_eth = None \<rparr>)"

definition format_pool ::
  "price_service \<Rightarrow> contracts \<Rightarrow> string \<Rightarrow> enriched_pool \<Rightarrow> formatted_pool" where
  "format_pool ps c tokenAddress pool =
     (let isTok0 = (toLowerCase (tok_address (e_token0 pool)) = toLowerCase tokenAddress);
          pairTok = (if isTok0 then e_token1 pool else e_token0 pool);
          rp = derive_price pool isTok0;
          comprehensivePrices = calculatePoolPrices ps c
            \<lparr> pi_type = e_type pool, pi_token0 = e_token0 pool, pi_token1 = e_token1 pool,
              pi_price = Some \<lparr> pf_ratio = Finite (rp_ratio rp),
                                token0Price = Finite (rp_token0Price rp),
                                token1Price = Finite (rp_token1Price rp) \<rparr> \<rparr>
            tokenAddress
      in \<lparr> pool_address = e_address pool,
           protocol = (if e_protocol pool \<noteq> [] then e_protocol pool else ''PancakeSwap''),
           pool_type = e_type pool,
           pair = symbol_or_unknown (e_token0 pool) @ ''/'' @ symbol_or_unknown (e_token1 pool),
           pairToken = pairTok,
           pool_fee = formatted_fee pool,
           pool_feePercent = formatted_feePercent pool,
           liquidity = format_liquidity pool,
           price = \<lparr> price_token0 = rp_token0Price rp, price_token1 = rp_token1Price rp,
                      ratio = rp_ratio rp, price_raw = rp_token1Price rp,
                      source = rp_source rp,
                      inPairToken = number_of (priceInPairToken comprehensivePrices),
                      inBNB = priceInBNB comprehensivePrices,
                      inUSD = number_of (priceInUSD comprehensivePrices),
                      price_usd = None \<rparr>,
           token0 = e_token0 pool,
           token1 = e_token1 pool,
           isToken0 = isTok0,
           tick = (if e_type pool = V3 then e_tick pool else None),
           sqrtPriceX96 = (if e_type pool = V3 then e_sqrtPriceX96 pool else None) \<rparr>)"

definition formatPoolsWithPricing ::
  "price_service \<Rightarrow> contracts \<Rightarrow> enriched_pool list \<Rightarrow> string \<Rightarrow> formatted_pool list" where
  "formatPoolsWithPricing ps c pools tokenAddress = map (format_pool ps c tokenAddress) pools"

section \<open>PoolAnalyzer: the warnings of an analysis\<close>

datatype severity = CRITICAL | HIGH | MEDIUM | LOW

text \<open>A warning, without its message and suggestion (texts with formatted numbers).\<close>

record warning_item =
  code :: string
  severity :: severity

record warnings_result =
  items :: "warning_item list"
  warning_count :: nat
  hasCritical :: bool
  hasHigh :: bool

definition addWarning :: "string \<Rightarrow> severity \<Rightarrow> warnings_result \<Rightarrow> warnings_result" where
  "addWarning cd sev w =
     w\<lparr> items := items w @ [\<lparr> code = cd, severity = sev \<rparr>],
         warning_count := warning_count w + 1,
         hasCritical := (hasCritical w \<or> sev = CRITICAL),
         hasHigh := (hasHigh w \<or> sev = HIGH) \<rparr>"

text \<open>
  \<open>bestPools.recommended\<close>: a pool together with its analysis for the default trade, or
  the first pool alone when no pool is tradeable (then \<open>costs\<close>, \<open>safety\<close> and
  \<open>riskLevel\<close> are absent). Its \<open>liquidityUSD\<close> is the USD liquidity of the pool.
\<close>

record recommended =
  rec_pool :: formatted_pool
  rec_analysis :: "trade_analysis option"

text \<open>
  The argument of \<open>generateWarnings\<close>. \<open>protocolStatus\<close> is the list of the entries of
  the object, each the name of a protocol and the \<open>status\<close> of its fetch.
\<close>

record warning_args =
  bestPools_recommended :: "recommended option"
  formattedPools :: "formatted_pool list"
  aggregatePrices :: "aggregate_prices option"
  pricesStale :: bool
  timing_total :: real
  protocolStatus :: "(string \<times> string) list option"
  hasPartialResults :: bool

definition mapSafetyWarning :: "string \<Rightarrow> severity option" where
  "mapSafetyWarning cd =
     map_of (rev
       [(''V3_NO_LIQUIDITY_IN_RANGE'', CRITICAL),
        (''PRICE_MANIPULATION_RISK'', CRITICAL),
        (''PRICE_DEVIATION_HIGH'', HIGH),
        (''PRICE_DEVIATION_MODERATE'', LOW),
        (''SANDWICH_ATTACK_CRITICAL'', CRITICAL),
        (''SANDWICH_ATTACK_HIGH'', HIGH),
        (''EXTREMELY_LOW_LIQUIDITY'', CRITICAL),
        (''LOW_LIQUIDITY'', HIGH),
        (''POOL_INACTIVE'', HIGH),
        (''VOLATILE_PAIR_FOR_LARGE_TRADE'', MEDIUM),
        (''UNUSUALLY_HIGH_FEE'', HIGH)]) cd"

definition is_active :: "formatted_pool \<Rightarrow> bool" where
  "is_active p = (liq_status (liquidity p) = ACTIVE \<or> liq_status (liquidity p) = WARNING_LIQUIDITY)"

text \<open>Section 4: a pool that has the target token but not enough of the pair token.\<close>

definition looks_rugged :: "formatted_pool \<Rightarrow> bool" where
  "looks_rugged p =
     (let minReserve = (if pairSymbol p = ''WBNB'' then 1 / 1000 else 10)
      in pairTokenAmount p < minReserve \<and> 0 < targetTokenAmount p)"

text \<open>Section 4b. A formatted pool has no field \<open>isRugged\<close>, so only the status counts.\<close>

definition is_v3_rugged :: "formatted_pool \<Rightarrow> bool" where
  "is_v3_rugged p = (pool_type p = V3 \<and> liq_status (liquidity p) = RUGGED)"

definition warn_partial :: "warning_args \<Rightarrow> warnings_result \<Rightarrow> warnings_result" where
  "warn_partial a w =
     (case protocolStatus a of
        None \<Rightarrow> w
      | Some st \<Rightarrow>
          if hasPartialResults a \<and> filter (\<lambda>e. snd e = ''failed'') st \<noteq> []
          then addWarning ''PARTIAL_RESULTS'' MEDIUM w else w)"

definition warn_liquidity :: "real \<Rightarrow> warnings_result \<Rightarrow> warnings_result" where
  "warn_liquidity liquidityUSD w =
     (if liquidityUSD < 1000 then addWarning ''EXTREMELY_LOW_LIQUIDITY'' CRITICAL w
      else if liquidityUSD < 10000 then addWarning ''LOW_LIQUIDITY'' HIGH w
      else if liquidityUSD < 50000 then addWarning ''MODERATE_LIQUIDITY'' MEDIUM w
      else w)"

definition warn_slippage :: "real \<Rightarrow> warnings_result \<Rightarrow> warnings_result" where
  "warn_slippage slippage w =
     (if 5 < slippage then addWarning ''EXTREME_SLIPPAGE'' CRITICAL w
      else if 2 < slippage then addWarning ''HIGH_SLIPPAGE'' HIGH w
      else if 1 < slippage then addWarning ''MODERATE_SLIPPAGE'' MEDIUM w
      else w)"

fun warn_safety :: "string list \<Rightarrow> warnings_result \<Rightarrow> warnings_result" where
  "warn_safety [] w = w"
| "warn_safety (safetyWarn # rest) w =
     warn_safety rest
       (case mapSafetyWarning safetyWarn of
          None \<Rightarrow> w
        | Some sev \<Rightarrow> addWarning safetyWarn sev w)"

definition warn_risk :: "string option \<Rightarrow> warnings_result \<Rightarrow> warnings_result" where
  "warn_risk risk w =
     (if risk = Some ''CRITICAL'' then addWarning ''RISK_CRITICAL'' CRITICAL w
      else if risk = Some ''HIGH'' then addWarning ''RISK_HIGH'' HIGH w
      else w)"

definition warn_recommended :: "recommended option \<Rightarrow> warnings_result \<Rightarrow> warnings_result" where
  "warn_recommended r w =
     (case r of
        None \<Rightarrow> w
      | Some rc \<Rightarrow>
          (let liquidityUSD = usd (liquidity (rec_pool rc));
               slippage = (case rec_analysis rc of
                             None \<Rightarrow> 0 | Some a \<Rightarrow> slippagePercent (costs a));
               safetyWarnings = (case rec_analysis rc of
                                   None \<Rightarrow> [] | Some a \<Rightarrow> warnings (safety a));
               risk = (case rec_analysis rc of None \<Rightarrow> None | Some a \<Rightarrow> Some (riskLevel a))
           in warn_risk risk
                (warn_safety safetyWarnings
                   (warn_slippage slippage (warn_liquidity liquidityUSD w)))))"

definition warn_spread :: "aggregate_prices option \<Rightarrow> warnings_result \<Rightarrow> warnings_result" where
  "warn_spread agg w =
     (case agg of
        None \<Rightarrow> w
      | Some a \<Rightarrow>
          (let priceSpread = js_sub (maxPriceUSD a) (minPriceUSD a);
               avgPrice = js_or (avgPriceUSD a) (Finite 1);
               spreadPercent = js_mul (js_div priceSpread avgPrice) (Finite 100)
           in if js_gt spreadPercent (Finite 10) then addWarning ''HIGH_PRICE_SPREAD'' HIGH w
              else if js_gt spreadPercent (Finite 5)
              then addWarning ''MODERATE_PRICE_SPREAD'' MEDIUM w
              else w))"

definition severityOrder :: "severity \<Rightarrow> nat" where
  "severityOrder sev = (case sev of CRITICAL \<Rightarrow> 0 | HIGH \<Rightarrow> 1 | MEDIUM \<Rightarrow> 2 | LOW \<Rightarrow> 3)"

definition no_warnings :: warnings_result where
  "no_warnings = \<lparr> items = [], warning_count = 0, hasCritical = False, hasHigh = False \<rparr>"

definition generateWarnings :: "warning_args \<Rightarrow> warnings_result" where
  "generateWarnings a =
     (let w0 = warn_partial a no_warnings;
          w1 = (if pricesStale a then addWarning ''STALE_PRICES'' MEDIUM w0 else w0);
          w2 = (if 2000 < timing_total a then addWarning ''SLOW_RESPONSE'' LOW w1 else w1);
          activePools = filter is_active (formattedPools a);
          w3 = (if length activePools = 0 then addWarning ''NO_ACTIVE_POOLS'' CRITICAL w2 else w2);
          ruggedPools = filter looks_rugged (formattedPools a);
          w4 = (if 0 < length ruggedPools then addWarning ''RUG_PULL_DETECTED'' CRITICAL w3 else w3);
          v3RuggedPools = filter is_v3_rugged (formattedPools a);
          w5 = (if 0 < length v3RuggedPools
                then addWarning ''V3_RUGGED_POOLS'' CRITICAL w4 else w4);
          w6 = warn_recommended (bestPools_recommended a) w5;
          w7 = warn_spread (aggregatePrices a) w6;
          w8 = (if length activePools = 1 then addWarning ''SINGLE_POOL'' MEDIUM w7 else w7)
      in w8\<lparr> items := sort_key (\<lambda>i. severityOrder (severity i)) (items w8) \<rparr>)"

text \<open>
  The part of \<open>_performAnalysis\<close> from the results of the batch fetch to the warnings:
  discovery keeps the pools with liquidity, these are formatted and priced, and the
  warnings are generated from the formatted pools. The other arguments of
  \<open>generateWarnings\<close> are taken as given.
\<close>

definition analysis_warnings ::
  "price_service \<Rightarrow> contracts \<Rightarrow> string \<Rightarrow> enriched_pool option list \<Rightarrow> warning_args
     \<Rightarrow> warnings_result" where
  "analysis_warnings ps c tokenAddress poolDataResults a =
     (let allPools = keep_pools poolDataResults;
          formatted = formatPoolsWithPricing ps c allPools tokenAddress;
          aggregate = calculateAggregatePrice ps c formatted tokenAddress
      in generateWarnings (a\<lparr> formattedPools := formatted, aggregatePrices := Some aggregate \<rparr>))"

section \<open>Sample pool data\<close>

text \<open>
  The token table of the samples, a V3 pool of the target token and the wrapper whose
  liquidity has been withdrawn, and the arguments of the warnings of an analysis in which
  nothing else is wrong: fresh prices, a fast response, every protocol fetched, and no
  recommended pool.
\<close>

definition sample_tokenInfo :: "string \<Rightarrow> token_info option" where
  "sample_tokenInfo = map_of
     [(''0x00000000000000000000000000000000000000aa'', target_info),
      (''0xbb4cdb9cbd36b01bd1cbaebf2de08d9173bc095c'', wbnb_info)]"

definition withdrawn_v3 :: pool_data where
  "withdrawn_v3 = \<lparr>
     pd_address = ''0x00000000000000000000000000000000000000C3'',
     pd_token0 = ''0x00000000000000000000000000000000000000Aa'',
     pd_token1 = WBNB bsc_contracts,
     reserve0 = None, reserve1 = None,
     pd_fee = Some 2500, pd_liquidity = Some 0,
     pd_slot0 = Some \<lparr> slot0_sqrtPriceX96 = 79228162514264337593543950336, slot0_tick = 0 \<rparr>,
     actualBalance0 = Some 0, actualBalance1 = Some 0,
     pd_token0Amount = None, pd_token1Amount = None \<rparr>"

definition withdrawn_info :: pool_info where
  "withdrawn_info = \<lparr> info_address = ''0x00000000000000000000000000000000000000C3'',
                      info_fee = Some 2500 \<rparr>"

definition empty_v2 :: pool_data where
  "empty_v2 = withdrawn_v3 \<lparr>
     pd_address := ''0x00000000000000000000000000000000000000C2'',
     reserve0 := Some 0, reserve1 := Some 0,
     pd_fee := None, pd_liquidity := None, pd_slot0 := None,
     actualBalance0 := None, actualBalance1 := None \<rparr>"



definition quiet_args :: warning_args where
  "quiet_args = \<lparr>
     bestPools_recommended = None, formattedPools = [], aggregatePrices = None,
     pricesStale = False, timing_total = 300,
     protocolStatus = Some [(''pancakeswapV2'', ''skipped''), (''pancakeswapV3'', ''success'')],
     hasPartialResults = False \<rparr>"

section \<open>Cache: single-flight fill\<close>

text \<open>
  \<open>getOrSet\<close> is an \<open>async\<close> function: it runs without interruption from one \<open>await\<close>
  to the next, and at every \<open>await\<close> other requests may run and change the cache and
  the lock table. The model makes this interference an input:
  \<^item> the wait loop of \<open>acquireLock\<close> is given the list of its wake-ups, each with the
    reading of the clock (milliseconds) at the wake-up and the change that the other
    requests have made to the shared state during the sleep;
  \<^item> \<open>resume\<close> is the change made while the caller awaits the result of \<open>acquireLock\<close>;
  \<^item> the fetch function takes the shared state when it is called and yields its outcome
    together with the shared state when the caller resumes.
  A list of wake-ups that ends while the caller still waits gives \<open>None\<close>: the caller
  has not returned. Expiry of entries is part of the interference.
\<close>

datatype 'v jsval = Undefined | Null | Val 'v

record 'v cache_state =
  store :: "string \<Rightarrow> 'v jsval option"
  locks :: "string \<Rightarrow> int option"

text \<open>\<open>cache.get(key)\<close> and \<open>cache.set(key, value, ttl)\<close>.\<close>

definition cache_get :: "'v cache_state \<Rightarrow> string \<Rightarrow> 'v jsval" where
  "cache_get s key = (case store s key of None \<Rightarrow> Undefined | Some v \<Rightarrow> v)"

definition cache_set :: "string \<Rightarrow> 'v jsval \<Rightarrow> 'v cache_state \<Rightarrow> 'v cache_state" where
  "cache_set key v s = s\<lparr> store := (store s)(key \<mapsto> v) \<rparr>"

definition releaseLock :: "string \<Rightarrow> 'v cache_state \<Rightarrow> 'v cache_state" where
  "releaseLock key s = s\<lparr> locks := (locks s)(key := None) \<rparr>"

type_synonym 'v wakeup = "int \<times> ('v cache_state \<Rightarrow> 'v cache_state)"

text \<open>
  \<open>acquireLock\<close>, entered or woken at time \<open>now\<close> in state \<open>s\<close>, having started to wait
  at \<open>startTime\<close>. The result is whether the lock was acquired, the state, and the
  wake-ups not used.
\<close>

fun acquireLock ::
  "string \<Rightarrow> int \<Rightarrow> int \<Rightarrow> 'v wakeup list \<Rightarrow> int \<Rightarrow> 'v cache_state
     \<Rightarrow> (bool \<times> 'v cache_state \<times> 'v wakeup list) option" where
  "acquireLock key timeout startTime [] now s =
     (if locks s key = None then Some (True, s\<lparr> locks := (locks s)(key \<mapsto> now) \<rparr>, [])
      else if timeout < now - startTime then Some (False, releaseLock key s, [])
      else None)"
| "acquireLock key timeout startTime (w # ws) now s =
     (if locks s key = None then Some (True, s\<lparr> locks := (locks s)(key \<mapsto> now) \<rparr>, w # ws)
      else if timeout < now - startTime then Some (False, releaseLock key s, w # ws)
      else acquireLock key timeout startTime ws (fst w) (snd w s))"

datatype ('v, 'e) fetch_outcome = Fetched "'v jsval" | Threw 'e

datatype ('v, 'e) fill_outcome = Returned "'v jsval" | Raised 'e

record ('v, 'e) fill_result =
  outcome :: "('v, 'e) fill_outcome"
  final :: "'v cache_state"
  fetch_called :: bool

definition getOrSet ::
  "string \<Rightarrow> ('v cache_state \<Rightarrow> ('v, 'e) fetch_outcome \<times> 'v cache_state)
     \<Rightarrow> 'v wakeup list \<Rightarrow> ('v cache_state \<Rightarrow> 'v cache_state) \<Rightarrow> int \<Rightarrow> 'v cache_state
     \<Rightarrow> ('v, 'e) fill_result option" where
  "getOrSet key fetchFn wakeups resume now s =
     (let existing = cache_get s key
      in if existing \<noteq> Undefined then
           Some \<lparr> outcome = Returned existing, final = s, fetch_called = False \<rparr>
         else
           (case acquireLock key 5000 now wakeups now s of
              None \<Rightarrow> None
            | Some (lockAcquired, s1, rest) \<Rightarrow>
                (let s2 = resume s1
                 in if \<not> lockAcquired then
                      Some \<lparr> outcome = Returned (cache_get s2 key), final = s2,
                             fetch_called = False \<rparr>
                    else
                      (let doubleCheck = cache_get s2 key
                       in if doubleCheck \<noteq> Undefined then
                            Some \<lparr> outcome = Returned doubleCheck,
                                   final = releaseLock key s2, fetch_called = False \<rparr>
                          else
                            (case fetchFn s2 of
                               (Threw e, s3) \<Rightarrow>
                                 Some \<lparr> outcome = Raised e, final = releaseLock key s3,
                                        fetch_called = True \<rparr>
                             | (Fetched v, s3) \<Rightarrow>
                                 (let s4 = (if v \<noteq> Undefined \<and> v \<noteq> Null
                                            then cache_set key v s3 else s3)
                                  in Some \<lparr> outcome = Returned v,
                                            final = releaseLock key s4,
                                            fetch_called = True \<rparr>))))))"

text \<open>
  The looks that a waiter takes at the lock, were it to wait through all its wake-ups:
  the clock reading and the shared state at entry and at each wake-up.
\<close>

fun polls :: "int \<Rightarrow> 'v cache_state \<Rightarrow> 'v wakeup list \<Rightarrow> (int \<times> 'v cache_state) list" where
  "polls now s [] = [(now, s)]"
| "polls now s (w # ws) = (now, s) # polls (fst w) (snd w s) ws"

text \<open>A look ends the wait when the lock of the key is free or the timeout has passed.\<close>

definition ends_wait :: "string \<Rightarrow> int \<Rightarrow> int \<Rightarrow> int \<times> 'v cache_state \<Rightarrow> bool" where
  "ends_wait key timeout startTime p = (locks (snd p) key = None \<or> timeout < fst p - startTime)"

text \<open>
  Three states of a cache of numbers: the key present; the key absent and its lock
  held; the key absent and its lock free. A waiter of the second is woken after 3 and
  after 6 seconds with nothing changed, or after 3 seconds with the lock released by its
  holder; the fetch function of the samples returns 7.
\<close>

definition unlocked_state :: "nat cache_state" where
  "unlocked_state = \<lparr> store = Map.empty, locks = Map.empty \<rparr>"

definition hit_state :: "nat cache_state" where
  "hit_state = unlocked_state \<lparr> store := [''k'' \<mapsto> Val 1] \<rparr>"

definition locked_state :: "nat cache_state" where
  "locked_state = unlocked_state \<lparr> locks := [''k'' \<mapsto> 0] \<rparr>"

definition late_wakeups :: "nat wakeup list" where
  "late_wakeups = [(3000, id), (6000, id)]"

definition freed_wakeups :: "nat wakeup list" where
  "freed_wakeups = [(3000, \<lambda>s. s\<lparr> locks := (locks s)(''k'' := None) \<rparr>)]"

definition sample_fetch :: "nat cache_state \<Rightarrow> (nat, unit) fetch_outcome \<times> nat cache_state" where
  "sample_fetch s = (Fetched (Val 7), s)"

section \<open>PoolAnalyzer: deduplication of concurrent analyses\<close>

text \<open>
  \<open>analyzeToken\<close> runs without interruption up to its \<open>await\<close> of the analysis promise,
  and again from the settlement of the promise to its return. The model has one step for
  each: the call, which either returns the cached analysis or leaves the caller awaiting
  a promise, and the settlement of a promise. Promises are numbered in the order in which
  \<open>_performAnalysis\<close> is started, so \<open>performed\<close> counts the upstream fetch sets issued.
  The address is taken as already normalised by \<open>ethers.getAddress\<close>.
\<close>

record analysis_meta =
  cached :: bool
  deduplicated :: bool
  waitedForInFlight :: bool

record 'a analysis =
  content :: 'a
  meta :: analysis_meta

record 'a analyzer =
  analysis_cache :: "string \<Rightarrow> 'a analysis option"
  inFlightRequests :: "string \<times> bool \<Rightarrow> nat option"
  promise_key :: "nat \<Rightarrow> (string \<times> bool) option"
  performed :: nat

definition new_analyzer :: "'a analyzer" where
  "new_analyzer = \<lparr> analysis_cache = Map.empty, inFlightRequests = Map.empty,
                     promise_key = Map.empty, performed = 0 \<rparr>"

text \<open>\<open>clearAllCachesForToken\<close>, as far as the analyses are concerned.\<close>

definition clearAllCachesForToken :: "string \<Rightarrow> 'a analyzer \<Rightarrow> 'a analyzer" where
  "clearAllCachesForToken addr s = s\<lparr> analysis_cache := (analysis_cache s)(addr := None) \<rparr>"

datatype 'a invocation = ReturnsCached "'a analysis" | AwaitsOwn nat | AwaitsInFlight nat

text \<open>The part of \<open>analyzeToken\<close> after the cache has been consulted or cleared.\<close>

definition join_or_start :: "string \<Rightarrow> bool \<Rightarrow> 'a analyzer \<Rightarrow> 'a invocation \<times> 'a analyzer" where
  "join_or_start addr forceRefresh s =
     (case inFlightRequests s (addr, forceRefresh) of
        Some p \<Rightarrow> (AwaitsInFlight p, s)
      | None \<Rightarrow>
          (AwaitsOwn (performed s),
           s\<lparr> inFlightRequests := (inFlightRequests s)((addr, forceRefresh) \<mapsto> performed s),
               promise_key := (promise_key s)(performed s \<mapsto> (addr, forceRefresh)),
               performed := performed s + 1 \<rparr>))"

definition analyzeToken_call :: "'a analyzer \<Rightarrow> string \<Rightarrow> bool \<Rightarrow> 'a invocation \<times> 'a analyzer" where
  "analyzeToken_call s addr forceRefresh =
     (if \<not> forceRefresh then
        (case analysis_cache s addr of
           Some c \<Rightarrow> (ReturnsCached (c\<lparr> meta := (meta c)\<lparr> cached := True \<rparr> \<rparr>), s)
         | None \<Rightarrow> join_or_start addr forceRefresh s)
      else join_or_start addr forceRefresh (clearAllCachesForToken addr s))"

datatype 'a settled = Fulfilled "'a analysis" | Rejected string

text \<open>
  The settlement of promise \<open>p\<close>: a successful \<open>_performAnalysis\<close> has stored its result
  in the cache just before; the caller that started it then runs its \<open>finally\<close> and
  deletes the entry of its key.
\<close>

definition settle :: "'a analyzer \<Rightarrow> nat \<Rightarrow> 'a settled \<Rightarrow> 'a analyzer" where
  "settle s p out =
     (case promise_key s p of
        None \<Rightarrow> s
      | Some k \<Rightarrow>
          (let s1 = (case out of
                       Fulfilled r \<Rightarrow> s\<lparr> analysis_cache := (analysis_cache s)(fst k \<mapsto> r) \<rparr>
                     | Rejected e \<Rightarrow> s)
           in s1\<lparr> inFlightRequests := (inFlightRequests s1)(k := None) \<rparr>))"

text \<open>
  What an invocation returns, given the settlement of the promise that it awaits: the
  cached analysis at once; the outcome of the analysis that it started; the outcome of
  the analysis that it joined, a result being marked as deduplicated.
\<close>

definition analyzeToken_return :: "'a invocation \<Rightarrow> 'a settled \<Rightarrow> 'a settled" where
  "analyzeToken_return invoked out =
     (case invoked of
        ReturnsCached c \<Rightarrow> Fulfilled c
      | AwaitsOwn p \<Rightarrow> out
      | AwaitsInFlight p \<Rightarrow>
          (case out of
             Fulfilled r \<Rightarrow>
               Fulfilled (r\<lparr> meta := (meta r)\<lparr> deduplicated := True,
                                                 waitedForInFlight := True \<rparr> \<rparr>)
           | Rejected e \<Rightarrow> Rejected e))"

text \<open>
  The states of the analyzer: calls, settlements of promises that are in flight, and
  expiry of cached analyses, in any order.
\<close>

inductive reachable :: "'a analyzer \<Rightarrow> bool" where
  start: "reachable new_analyzer"
| call: "reachable s \<Longrightarrow> reachable (snd (analyzeToken_call s addr forceRefresh))"
| settles: "reachable s \<Longrightarrow> inFlightRequests s k = Some p \<Longrightarrow> reachable (settle s p out)"
| expires: "reachable s \<Longrightarrow> reachable (s\<lparr> analysis_cache := (analysis_cache s)(addr := None) \<rparr>)"

text \<open>
  A run: a first analysis of a token is started; a forced analysis of the same token is
  started and finishes first; the first analysis is still in flight.
\<close>

definition fresh_analysis :: "nat analysis" where
  "fresh_analysis = \<lparr> content = 1,
     meta = \<lparr> cached = False, deduplicated = False, waitedForInFlight = False \<rparr> \<rparr>"

definition overtaken :: "nat analyzer" where
  "overtaken =
     settle (snd (analyzeToken_call (snd (analyzeToken_call new_analyzer ''0xAa'' False))
                    ''0xAa'' True))
       1 (Fulfilled fresh_analysis)"

definition first_started :: "nat analyzer" where
  "first_started = snd (analyzeToken_call new_analyzer ''0xAa'' False)"

section \<open>Properties\<close>



lemma rounded_simps [simp]:
  "rounded (Finite r) = round64 r" "rounded PosInf = PosInf" "rounded NegInf = NegInf"
  "rounded NaN = NaN"
  by (simp_all add: rounded_def)

lemma sample_price_wbnb: "basePrice_or_zero sample_service (address_key wbnb_info) = 600"
  by (simp add: basePrice_or_zero_def sample_service_def new_PriceService_def address_key_def
      wbnb_info_def bsc_contracts_def toLowerCase_def lowerChar_def)

lemma sample_price_target: "basePrice_or_zero sample_service (address_key target_info) = 0"
  by (simp add: basePrice_or_zero_def sample_service_def new_PriceService_def address_key_def
      target_info_def bsc_contracts_def toLowerCase_def lowerChar_def)

text \<open>
  Claim C10. The claim says that, with exactly one token price known, the division that
  derives the other token's price has a positive divisor, so that the USD value is finite
  for non-negative reserves. In \<open>calculatePoolValue\<close> the guard tests the dividend
  (\<open>reserve0 > 0\<close>) while the division is by \<open>reserve1\<close>: a pool holding one wrapper token
  and none of the other token divides by zero, the derived price is Infinity, the value
  of the empty side is \<open>0 * Infinity\<close>, and the total is NaN.
\<close>

theorem calculatePoolValue_zero_divisor_NaN:
  "fst (calculatePoolValue sample_service (Finite 1) (Finite 0) wbnb_info target_info) = NaN"
  by (simp add: calculatePoolValue_def Let_def js_gt_def sample_price_wbnb sample_price_target)

lemma priceDeviation_check_v3_range [simp]:
  "priceDeviation (check_v3_range pool s) = priceDeviation s"
  by (simp add: check_v3_range_def)

lemma priceDeviation_check_price_deviation:
  "priceDeviation (check_price_deviation ps pool s)
     = (if 0 < inUSD (price pool) then 0 else priceDeviation s)"
  by (simp add: check_price_deviation_def getAggregatePrice_def Let_def)

lemma priceDeviation_check_sandwich [simp]:
  "priceDeviation (check_sandwich t l s) = priceDeviation s"
  unfolding check_sandwich_def Let_def by (simp split: if_splits)

lemma priceDeviation_check_liquidity_depth [simp]:
  "priceDeviation (check_liquidity_depth l s) = priceDeviation s"
  by (simp add: check_liquidity_depth_def)

lemma priceDeviation_check_rug_pull [simp]:
  "priceDeviation (check_rug_pull pool s) = priceDeviation s"
  by (simp add: check_rug_pull_def)

lemma priceDeviation_check_status [simp]:
  "priceDeviation (check_status pool s) = priceDeviation s"
  by (simp add: check_status_def)

lemma priceDeviation_check_pair_token [simp]:
  "priceDeviation (check_pair_token pool t s) = priceDeviation s"
  by (simp add: check_pair_token_def Let_def)

lemma priceDeviation_check_fee [simp]:
  "priceDeviation (check_fee pool s) = priceDeviation s"
  by (simp add: check_fee_def)

text \<open>
  The deviation is measured against the pool's own price, since no aggregate price is
  available to the scorer; it is therefore 0 and the slippage is never surcharged.
\<close>

lemma performSafetyChecks_priceDeviation:
  "priceDeviation (performSafetyChecks ps pool t l b) = 0"
  by (simp add: performSafetyChecks_def Let_def priceDeviation_check_price_deviation
      initial_checks_def js_round_def)

text \<open>
  Claim C5. For every scored pool the reported total cost is the sum of the reported fee
  and slippage percentages (exactly, hence within \<open>1e-6\<close>), the fee percentage is the
  pool's fee in basis points divided by 10000, and the reported slippage is the estimate
  of \<open>estimateSlippage\<close> for that pool and trade size. A formatted pool always carries a
  non-zero fee (the source substitutes 3000 for an absent one).
\<close>

theorem analyzePoolForTrade_costs:
  assumes "pool_fee pool \<noteq> 0"
  shows "\<bar>totalCostPercent (costs (analyzePoolForTrade ps pool tradeAmountUSD bnbPrice))
           - (feePercent (costs (analyzePoolForTrade ps pool tradeAmountUSD bnbPrice))
              + slippagePercent (costs (analyzePoolForTrade ps pool tradeAmountUSD bnbPrice)))\<bar>
           \<le> 1 / 10 ^ 6
       \<and> feePercent (costs (analyzePoolForTrade ps pool tradeAmountUSD bnbPrice))
           = pool_fee pool / 10000
       \<and> slippagePercent (costs (analyzePoolForTrade ps pool tradeAmountUSD bnbPrice))
           = estimateSlippage pool tradeAmountUSD (usd (liquidity pool))
               (Some (performSafetyChecks ps pool tradeAmountUSD (usd (liquidity pool)) bnbPrice))"
  using assms
  by (simp add: analyzePoolForTrade_def Let_def performSafetyChecks_priceDeviation)

theorem analyzePoolForTrade_costs_witness:
  "pool_fee balanced_pool \<noteq> 0
   \<and> feePercent (costs (analyzePoolForTrade sample_service balanced_pool 1000 600)) = 3 / 10
   \<and> \<bar>totalCostPercent (costs (analyzePoolForTrade sample_service balanced_pool 1000 600))
        - (feePercent (costs (analyzePoolForTrade sample_service balanced_pool 1000 600))
           + slippagePercent (costs (analyzePoolForTrade sample_service balanced_pool 1000 600)))\<bar>
        \<le> 1 / 10 ^ 6"
proof -
  have fee: "pool_fee balanced_pool = 3000"
    by (simp add: balanced_pool_def)
  then have nz: "pool_fee balanced_pool \<noteq> 0"
    by simp
  note costs = analyzePoolForTrade_costs [OF nz, of sample_service 1000 600]
  have "feePercent (costs (analyzePoolForTrade sample_service balanced_pool 1000 600)) = 3 / 10"
    using conjunct1 [OF conjunct2 [OF costs]] fee by simp
  with nz conjunct1 [OF costs] show ?thesis
    by (intro conjI)
qed

lemma sample_keys:
  "toLowerCase (WBNB bsc_contracts) = ''0xbb4cdb9cbd36b01bd1cbaebf2de08d9173bc095c''"
  "toLowerCase (CAKE bsc_contracts) = ''0x0e09fabb73bd3ade0a17ecc321fd13a19e81ce82''"
  "toLowerCase (USDT bsc_contracts) = ''0x55d398326f99059ff775485246999027b3197955''"
  "toLowerCase (USDC bsc_contracts) = ''0x8ac76a51cc950d9822d68b83fe1ad97b32cd580d''"
  "toLowerCase (BUSD bsc_contracts) = ''0xe9e7cea3dedca5984780bafc599bd69add087d56''"
  "toLowerCase (DAI bsc_contracts) = ''0x1af3f329e8be154074d8769d1ffa4ee058b1dbc3''"
  by (simp_all add: bsc_contracts_def toLowerCase_def lowerChar_def)






























lemma formatUnits_zero [simp]: "formatUnits 0 d = 0"
  by (simp add: formatUnits_def)

lemma v2_status_not_RUGGED: "v2_status v a b \<noteq> RUGGED"
  by (simp add: v2_status_def)

lemma v3_status_not_RUGGED: "v3_status v l \<noteq> RUGGED"
  by (simp add: v3_status_def)

lemma enrich_V3_rugged:
  assumes "or_zero (pd_liquidity pd) = 0"
  shows "e_liquidity (enrichPoolData ps pd info tinfo V3 proto)
           = Some \<lparr> raw = 0, token0Amount = 0, token1Amount = 0, totalValueUSD = Finite 0,
                    totalValueBNB = Finite 0, status = RUGGED \<rparr>"
    and "reserves (enrichPoolData ps pd info tinfo V3 proto) = None"
  using assms by (simp_all add: enrichPoolData_def Let_def)

text \<open>
  Every pool that \<open>enrichPoolData\<close> marks \<open>RUGGED\<close> has \<open>raw = '0'\<close> and no reserves, so
  the filter of \<open>discoverAllPools\<close> drops it.
\<close>

lemma enrich_rugged_dropped:
  assumes "map_option status (e_liquidity (enrichPoolData ps pd info tinfo ty proto)) = Some RUGGED"
  shows "\<not> hasLiquidity (enrichPoolData ps pd info tinfo ty proto)"
proof (cases ty)
  case V2
  with assms show ?thesis
    by (simp add: enrichPoolData_def Let_def v2_status_not_RUGGED)
next
  case V3
  show ?thesis
  proof (cases "MAX_TICK - TICK_BOUNDARY_THRESHOLD
                  \<le> (case pd_slot0 pd of None \<Rightarrow> 0 | Some sl \<Rightarrow> slot0_tick sl)
                \<or> (case pd_slot0 pd of None \<Rightarrow> 0 | Some sl \<Rightarrow> slot0_tick sl)
                  \<le> MIN_TICK + TICK_BOUNDARY_THRESHOLD
                \<or> or_zero (pd_liquidity pd) = 0")
    case True
    with V3 show ?thesis
      by (simp add: enrichPoolData_def Let_def hasLiquidity_def)
  next
    case False
    with V3 assms show ?thesis
      by (simp add: enrichPoolData_def Let_def v3_status_not_RUGGED)
  qed
next
  case OtherType
  with assms show ?thesis
    by (simp add: enrichPoolData_def Let_def)
qed

lemma withdrawn_dropped:
  "keep_pools [Some (enrichPoolData sample_service withdrawn_v3 withdrawn_info sample_tokenInfo
                       V3 ''PancakeSwap'')] = []"
proof -
  have "or_zero (pd_liquidity withdrawn_v3) = 0"
    by (simp add: withdrawn_v3_def or_zero_def)
  then have "\<not> hasLiquidity (enrichPoolData sample_service withdrawn_v3 withdrawn_info
                 sample_tokenInfo V3 ''PancakeSwap'')"
    by (intro enrich_rugged_dropped) (simp add: enrich_V3_rugged)
  then show ?thesis
    by (simp add: keep_pools_def)
qed

lemma aggregate_no_pools:
  "calculateAggregatePrice ps c [] tok
     = initial_prices \<lparr> minPriceUSD := Finite 0, minPriceBNB := Finite 0 \<rparr>"
  by (simp add: calculateAggregatePrice_def Let_def initial_prices_def median_of_def
      sort_numbers_def js_gt_def)

text \<open>
  Claim C3. The claim says that an analysis whose pool fetch produced a V3 pool with
  status \<open>RUGGED\<close> carries the warning \<open>V3_RUGGED_POOLS\<close>. The fetch marks the V3 pool
  with zero liquidity \<open>RUGGED\<close> and gives it \<open>raw = '0'\<close>; the filter of
  \<open>discoverAllPools\<close> then drops it as a pool without liquidity, so it is never formatted
  and \<open>generateWarnings\<close> never sees it: the only warning is \<open>NO_ACTIVE_POOLS\<close>.
\<close>

theorem rugged_v3_pool_not_warned:
  "map_option status (e_liquidity (enrichPoolData sample_service withdrawn_v3 withdrawn_info
      sample_tokenInfo V3 ''PancakeSwap'')) = Some RUGGED
   \<and> items (analysis_warnings sample_service bsc_contracts
        ''0x00000000000000000000000000000000000000Aa''
        [Some (enrichPoolData sample_service withdrawn_v3 withdrawn_info sample_tokenInfo
                 V3 ''PancakeSwap'')]
        quiet_args)
       = [\<lparr> code = ''NO_ACTIVE_POOLS'', severity = CRITICAL \<rparr>]"
proof -
  have z: "or_zero (pd_liquidity withdrawn_v3) = 0"
    by (simp add: withdrawn_v3_def or_zero_def)
  have a: "map_option status (e_liquidity (enrichPoolData sample_service withdrawn_v3
             withdrawn_info sample_tokenInfo V3 ''PancakeSwap'')) = Some RUGGED"
    by (simp add: enrich_V3_rugged [OF z])
  have b: "items (analysis_warnings sample_service bsc_contracts
        ''0x00000000000000000000000000000000000000Aa''
        [Some (enrichPoolData sample_service withdrawn_v3 withdrawn_info sample_tokenInfo
                 V3 ''PancakeSwap'')]
        quiet_args)
       = [\<lparr> code = ''NO_ACTIVE_POOLS'', severity = CRITICAL \<rparr>]"
    unfolding analysis_warnings_def Let_def withdrawn_dropped
    by (simp add: formatPoolsWithPricing_def aggregate_no_pools generateWarnings_def Let_def
        quiet_args_def warn_partial_def no_warnings_def addWarning_def warn_recommended_def
        warn_spread_def initial_prices_def js_sub_def js_or_def js_truthy_def js_gt_def)
  from a b show ?thesis ..
qed

lemma target_key:
  "toLowerCase ''0x00000000000000000000000000000000000000Aa''
     = ''0x00000000000000000000000000000000000000aa''"
  by (simp add: toLowerCase_def lowerChar_def)

lemma calculatePoolValue_empty:
  "fst (calculatePoolValue ps (Finite 0) (Finite 0) t0 t1) = Finite 0"
  by (simp add: calculatePoolValue_def Let_def js_gt_def)

lemma v2_status_empty: "v2_status (Finite 0) 0 0 = EMPTY"
  by (simp add: v2_status_def js_ge_def js_le_def)

lemma enrich_V2_empty:
  assumes "or_zero (reserve0 pd) = 0" "or_zero (reserve1 pd) = 0"
  shows "map_option status (e_liquidity (enrichPoolData ps pd info tinfo V2 proto)) = Some EMPTY"
    and "e_type (enrichPoolData ps pd info tinfo V2 proto) = V2"
    and "reserves (enrichPoolData ps pd info tinfo V2 proto) = Some (0, 0)"
  using assms
  by (simp_all add: enrichPoolData_def Let_def calculatePoolValue_empty v2_status_empty)

lemma derive_price_empty_V2:
  "e_type pool = V2 \<Longrightarrow> reserves pool = Some (0, 0) \<Longrightarrow> derive_price pool b = no_price"
  by (simp add: derive_price_def Let_def)

lemma ratio_format_pool: "ratio (price (format_pool ps c tok pool))
    = rp_ratio (derive_price pool (toLowerCase (tok_address (e_token0 pool)) = toLowerCase tok))"
  by (simp add: format_pool_def Let_def)

text \<open>
  Claim C4. The claim says that a pool whose protocol state is zero has price ratio 0 and
  status \<open>EMPTY\<close>, for V3 pools with zero liquidity as for V2 pools with zero reserves. A
  V3 pool with zero liquidity is caught by the rugged-pool test that precedes the status
  thresholds: its status is \<open>RUGGED\<close>, and the price ratio that formatting would derive
  from its square-root price (here \<open>2^96\<close>, a price of 1) is not 0.
\<close>

theorem zero_liquidity_v3_is_rugged:
  "or_zero (pd_liquidity withdrawn_v3) = 0
   \<and> map_option status (e_liquidity (enrichPoolData sample_service withdrawn_v3 withdrawn_info
        sample_tokenInfo V3 ''PancakeSwap'')) \<noteq> Some EMPTY
   \<and> ratio (price (format_pool sample_service bsc_contracts
        ''0x00000000000000000000000000000000000000Aa''
        (enrichPoolData sample_service withdrawn_v3 withdrawn_info sample_tokenInfo
           V3 ''PancakeSwap''))) \<noteq> 0"
proof -
  have z: "or_zero (pd_liquidity withdrawn_v3) = 0"
    by (simp add: withdrawn_v3_def or_zero_def)
  have s: "map_option status (e_liquidity (enrichPoolData sample_service withdrawn_v3
             withdrawn_info sample_tokenInfo V3 ''PancakeSwap'')) \<noteq> Some EMPTY"
    by (simp add: enrich_V3_rugged [OF z])
  have e: "e_type (enrichPoolData sample_service withdrawn_v3 withdrawn_info sample_tokenInfo
             V3 ''PancakeSwap'') = V3"
      "e_sqrtPriceX96 (enrichPoolData sample_service withdrawn_v3 withdrawn_info
             sample_tokenInfo V3 ''PancakeSwap'') = Some 79228162514264337593543950336"
      "decimals_or_18 (e_token0 (enrichPoolData sample_service withdrawn_v3 withdrawn_info
             sample_tokenInfo V3 ''PancakeSwap'')) = 18"
      "decimals_or_18 (e_token1 (enrichPoolData sample_service withdrawn_v3 withdrawn_info
             sample_tokenInfo V3 ''PancakeSwap'')) = 18"
    by (simp_all add: enrichPoolData_def Let_def withdrawn_v3_def or_zero_def decimals_or_18_def
        token_of_def lookup_info_def sample_tokenInfo_def sample_keys target_key
        target_info_def wbnb_info_def)
  have r: "rp_ratio (derive_price (enrichPoolData sample_service withdrawn_v3 withdrawn_info
             sample_tokenInfo V3 ''PancakeSwap'') b) = 1" for b
    by (simp add: derive_price_def Let_def e)
  from z s show ?thesis
    by (simp add: ratio_format_pool r)
qed

text \<open>
  Claim C4, amended. An enriched V2 pool with both reserves zero has status \<open>EMPTY\<close> and
  the price ratio derived for it is 0. An enriched V3 pool with zero liquidity has status
  \<open>RUGGED\<close>, with a zeroed liquidity block, and the discovery filter drops it before any
  price is derived.
\<close>

theorem zero_state_pools:
  "(or_zero (reserve0 pd) = 0 \<and> or_zero (reserve1 pd) = 0 \<longrightarrow>
      map_option status (e_liquidity (enrichPoolData ps pd info tinfo V2 proto)) = Some EMPTY
      \<and> ratio (price (format_pool ps c tok (enrichPoolData ps pd info tinfo V2 proto))) = 0)
   \<and> (or_zero (pd_liquidity pd) = 0 \<longrightarrow>
      map_option status (e_liquidity (enrichPoolData ps pd info tinfo V3 proto)) = Some RUGGED
      \<and> \<not> hasLiquidity (enrichPoolData ps pd info tinfo V3 proto))"
proof (intro conjI impI)
  assume z: "or_zero (reserve0 pd) = 0 \<and> or_zero (reserve1 pd) = 0"
  then show "map_option status (e_liquidity (enrichPoolData ps pd info tinfo V2 proto)) = Some EMPTY"
    by (simp add: enrich_V2_empty)
  from z have "derive_price (enrichPoolData ps pd info tinfo V2 proto) b = no_price" for b
    by (intro derive_price_empty_V2) (simp_all add: enrich_V2_empty)
  then show "ratio (price (format_pool ps c tok (enrichPoolData ps pd info tinfo V2 proto))) = 0"
    by (simp add: ratio_format_pool no_price_def)
next
  assume z: "or_zero (pd_liquidity pd) = 0"
  then show r: "map_option status (e_liquidity (enrichPoolData ps pd info tinfo V3 proto)) = Some RUGGED"
    by (simp add: enrich_V3_rugged)
  then show "\<not> hasLiquidity (enrichPoolData ps pd info tinfo V3 proto)"
    by (rule enrich_rugged_dropped)
qed

theorem zero_state_pools_witness:
  "or_zero (reserve0 empty_v2) = 0 \<and> or_zero (reserve1 empty_v2) = 0
   \<and> map_option status (e_liquidity (enrichPoolData sample_service empty_v2 withdrawn_info
        sample_tokenInfo V2 ''PancakeSwap'')) = Some EMPTY
   \<and> ratio (price (format_pool sample_service bsc_contracts
        ''0x00000000000000000000000000000000000000Aa''
        (enrichPoolData sample_service empty_v2 withdrawn_info sample_tokenInfo
           V2 ''PancakeSwap''))) = 0
   \<and> or_zero (pd_liquidity withdrawn_v3) = 0
   \<and> map_option status (e_liquidity (enrichPoolData sample_service withdrawn_v3 withdrawn_info
        sample_tokenInfo V3 ''PancakeSwap'')) = Some RUGGED
   \<and> \<not> hasLiquidity (enrichPoolData sample_service withdrawn_v3 withdrawn_info
          sample_tokenInfo V3 ''PancakeSwap'')"
proof -
  have v2: "or_zero (reserve0 empty_v2) = 0 \<and> or_zero (reserve1 empty_v2) = 0"
    by (simp add: empty_v2_def or_zero_def)
  have v3: "or_zero (pd_liquidity withdrawn_v3) = 0"
    by (simp add: withdrawn_v3_def or_zero_def)
  note a = zero_state_pools [of empty_v2 sample_service withdrawn_info sample_tokenInfo
      "''PancakeSwap''" bsc_contracts "''0x00000000000000000000000000000000000000Aa''"]
  note b = zero_state_pools [of withdrawn_v3 sample_service withdrawn_info sample_tokenInfo
      "''PancakeSwap''" bsc_contracts "''0x00000000000000000000000000000000000000Aa''"]
  from a v2 have 1: "map_option status (e_liquidity (enrichPoolData sample_service empty_v2
        withdrawn_info sample_tokenInfo V2 ''PancakeSwap'')) = Some EMPTY"
    "ratio (price (format_pool sample_service bsc_contracts
        ''0x00000000000000000000000000000000000000Aa''
        (enrichPoolData sample_service empty_v2 withdrawn_info sample_tokenInfo
           V2 ''PancakeSwap''))) = 0"
    by blast+
  from b v3 have 2: "map_option status (e_liquidity (enrichPoolData sample_service withdrawn_v3
        withdrawn_info sample_tokenInfo V3 ''PancakeSwap'')) = Some RUGGED"
    "\<not> hasLiquidity (enrichPoolData sample_service withdrawn_v3 withdrawn_info
          sample_tokenInfo V3 ''PancakeSwap'')"
    by blast+
  from v2 1 v3 2 show ?thesis
    by (intro conjI) simp_all
qed

lemma acquireLock_polls:
  "map_option (\<lambda>r. (fst r, fst (snd r))) (acquireLock key timeout startTime ws now s)
     = map_option
         (\<lambda>p. if locks (snd p) key = None
               then (True, (snd p)\<lparr> locks := (locks (snd p))(key \<mapsto> fst p) \<rparr>)
               else (False, releaseLock key (snd p)))
         (find (ends_wait key timeout startTime) (polls now s ws))"
  by (induction ws arbitrary: now s) (auto simp: ends_wait_def)


lemma acquireLock_waits:
  "find (ends_wait key timeout startTime) (polls now s ws) = None
     \<Longrightarrow> acquireLock key timeout startTime ws now s = None"
  using acquireLock_polls [of key timeout startTime ws now s] by simp

lemma acquireLock_ends:
  assumes "find (ends_wait key timeout startTime) (polls now s ws) = Some (t, st)"
  shows "\<exists>rest. acquireLock key timeout startTime ws now s
           = Some (if locks st key = None
                   then (True, st\<lparr> locks := (locks st)(key \<mapsto> t) \<rparr>, rest)
                   else (False, releaseLock key st, rest))"
proof -
  from assms acquireLock_polls [of key timeout startTime ws now s]
  obtain r where r: "acquireLock key timeout startTime ws now s = Some r"
      "(fst r, fst (snd r)) = (if locks st key = None
                               then (True, st\<lparr> locks := (locks st)(key \<mapsto> t) \<rparr>)
                               else (False, releaseLock key st))"
    by (cases "acquireLock key timeout startTime ws now s") auto
  obtain b s1 rest where "r = (b, s1, rest)"
    by (cases r) auto
  with r show ?thesis
    by (auto split: if_splits)
qed

lemma find_ends_wait:
  "find (ends_wait key timeout startTime) xs = Some (t, st)
     \<Longrightarrow> locks st key = None \<or> timeout < t - startTime"
proof (induction xs)
  case Nil
  then show ?case by simp
next
  case (Cons x xs)
  then show ?case
    by (cases "ends_wait key timeout startTime x") (auto simp: ends_wait_def)
qed

text \<open>
  Claim C8. For every key and fetch function, in terms of the looks that the caller takes
  at the lock (at entry and at each wake-up):
  \<^item> a key that is present is returned, the state is untouched and fetch is not called;
  \<^item> otherwise the caller waits for the lock of the key. The wait ends at the first look
    at which the lock is free or more than 5000 ms have passed since the caller started
    to wait; at every earlier look the lock was held and at most 5000 ms had passed. If
    no look ends the wait, the caller has not returned;
  \<^item> when the wait ends with the lock still held (timeout), the lock entry is removed
    and the caller returns a fresh read of the key, absent or not, taken after the
    interference of its resumption, without calling fetch;
  \<^item> when the wait ends with the lock free, the caller records the lock under the time of
    that look; after it resumes it reads the key again and, when present, returns it
    without calling fetch;
  \<^item> otherwise it calls fetch in that state and returns (or raises) what fetch returns
    (or throws), the value being written when it is neither \<open>null\<close> nor \<open>undefined\<close> and
    the store left as it is otherwise;
  \<^item> whenever the lock was acquired, its entry is removed at the end.
\<close>

theorem getOrSet_single_flight:
  "(cache_get s key \<noteq> Undefined \<longrightarrow>
      getOrSet key fetchFn ws resume now s
        = Some \<lparr> outcome = Returned (cache_get s key), final = s, fetch_called = False \<rparr>)
   \<and> (cache_get s key = Undefined \<and> find (ends_wait key 5000 now) (polls now s ws) = None \<longrightarrow>
      getOrSet key fetchFn ws resume now s = None
      \<and> (\<forall>p\<in>set (polls now s ws). locks (snd p) key \<noteq> None \<and> fst p - now \<le> 5000))
   \<and> (cache_get s key = Undefined
       \<and> find (ends_wait key 5000 now) (polls now s ws) = Some (t, st) \<longrightarrow>
      (\<forall>p\<in>set (takeWhile (Not \<circ> ends_wait key 5000 now) (polls now s ws)).
          locks (snd p) key \<noteq> None \<and> fst p - now \<le> 5000))
   \<and> (cache_get s key = Undefined
       \<and> find (ends_wait key 5000 now) (polls now s ws) = Some (t, st)
       \<and> locks st key \<noteq> None \<longrightarrow>
      5000 < t - now
      \<and> getOrSet key fetchFn ws resume now s
          = Some \<lparr> outcome = Returned (cache_get (resume (st\<lparr> locks := (locks st)(key := None) \<rparr>)) key),
                   final = resume (st\<lparr> locks := (locks st)(key := None) \<rparr>),
                   fetch_called = False \<rparr>)
   \<and> (cache_get s key = Undefined
       \<and> find (ends_wait key 5000 now) (polls now s ws) = Some (t, st)
       \<and> locks st key = None
       \<and> resume (st\<lparr> locks := (locks st)(key \<mapsto> t) \<rparr>) = held
       \<and> cache_get held key \<noteq> Undefined \<longrightarrow>
      getOrSet key fetchFn ws resume now s
        = Some \<lparr> outcome = Returned (cache_get held key),
                 final = held\<lparr> locks := (locks held)(key := None) \<rparr>,
                 fetch_called = False \<rparr>)
   \<and> (cache_get s key = Undefined
       \<and> find (ends_wait key 5000 now) (polls now s ws) = Some (t, st)
       \<and> locks st key = None
       \<and> resume (st\<lparr> locks := (locks st)(key \<mapsto> t) \<rparr>) = held
       \<and> cache_get held key = Undefined
       \<and> fetchFn held = (Fetched v, fetched_state) \<longrightarrow>
      getOrSet key fetchFn ws resume now s
        = Some \<lparr> outcome = Returned v,
                 final = (if v \<noteq> Undefined \<and> v \<noteq> Null
                          then fetched_state\<lparr> store := (store fetched_state)(key \<mapsto> v),
                                              locks := (locks fetched_state)(key := None) \<rparr>
                          else fetched_state\<lparr> locks := (locks fetched_state)(key := None) \<rparr>),
                 fetch_called = True \<rparr>)
   \<and> (cache_get s key = Undefined
       \<and> find (ends_wait key 5000 now) (polls now s ws) = Some (t, st)
       \<and> locks st key = None
       \<and> resume (st\<lparr> locks := (locks st)(key \<mapsto> t) \<rparr>) = held
       \<and> cache_get held key = Undefined
       \<and> fetchFn held = (Threw e, fetched_state) \<longrightarrow>
      getOrSet key fetchFn ws resume now s
        = Some \<lparr> outcome = Raised e,
                 final = fetched_state\<lparr> locks := (locks fetched_state)(key := None) \<rparr>,
                 fetch_called = True \<rparr>)"
proof (intro conjI impI)
  assume "cache_get s key \<noteq> Undefined"
  then show "getOrSet key fetchFn ws resume now s
        = Some \<lparr> outcome = Returned (cache_get s key), final = s, fetch_called = False \<rparr>"
    by (simp add: getOrSet_def Let_def)
next
  assume a: "cache_get s key = Undefined \<and> find (ends_wait key 5000 now) (polls now s ws) = None"
  then have "acquireLock key 5000 now ws now s = None"
    by (simp add: acquireLock_waits)
  with a show "getOrSet key fetchFn ws resume now s = None"
    by (simp add: getOrSet_def Let_def)
  from a have "\<forall>p\<in>set (polls now s ws). \<not> ends_wait key 5000 now p"
    by (auto simp: find_None_iff)
  then show "\<forall>p\<in>set (polls now s ws). locks (snd p) key \<noteq> None \<and> fst p - now \<le> 5000"
    by (auto simp: ends_wait_def)
next
  assume "cache_get s key = Undefined
       \<and> find (ends_wait key 5000 now) (polls now s ws) = Some (t, st)"
  have "\<forall>p\<in>set (takeWhile (Not \<circ> ends_wait key 5000 now) (polls now s ws)).
          \<not> ends_wait key 5000 now p"
    by (auto dest: set_takeWhileD)
  then show "\<forall>p\<in>set (takeWhile (Not \<circ> ends_wait key 5000 now) (polls now s ws)).
          locks (snd p) key \<noteq> None \<and> fst p - now \<le> 5000"
    by (auto simp: ends_wait_def)
next
  assume a: "cache_get s key = Undefined
       \<and> find (ends_wait key 5000 now) (polls now s ws) = Some (t, st)
       \<and> locks st key \<noteq> None"
  with find_ends_wait [of key 5000 now "polls now s ws" t st]
  show "5000 < t - now"
    by simp
  from a acquireLock_ends [of key 5000 now now s ws t st]
  obtain rest where "acquireLock key 5000 now ws now s = Some (False, releaseLock key st, rest)"
    by auto
  with a show "getOrSet key fetchFn ws resume now s
          = Some \<lparr> outcome = Returned (cache_get (resume (st\<lparr> locks := (locks st)(key := None) \<rparr>)) key),
                   final = resume (st\<lparr> locks := (locks st)(key := None) \<rparr>),
                   fetch_called = False \<rparr>"
    by (simp add: getOrSet_def Let_def releaseLock_def)
next
  assume a: "cache_get s key = Undefined
       \<and> find (ends_wait key 5000 now) (polls now s ws) = Some (t, st)
       \<and> locks st key = None
       \<and> resume (st\<lparr> locks := (locks st)(key \<mapsto> t) \<rparr>) = held
       \<and> cache_get held key \<noteq> Undefined"
  with acquireLock_ends [of key 5000 now now s ws t st]
  obtain rest where "acquireLock key 5000 now ws now s
      = Some (True, st\<lparr> locks := (locks st)(key \<mapsto> t) \<rparr>, rest)"
    by auto
  with a show "getOrSet key fetchFn ws resume now s
        = Some \<lparr> outcome = Returned (cache_get held key),
                 final = held\<lparr> locks := (locks held)(key := None) \<rparr>,
                 fetch_called = False \<rparr>"
    by (simp add: getOrSet_def Let_def releaseLock_def)
next
  assume a: "cache_get s key = Undefined
       \<and> find (ends_wait key 5000 now) (polls now s ws) = Some (t, st)
       \<and> locks st key = None
       \<and> resume (st\<lparr> locks := (locks st)(key \<mapsto> t) \<rparr>) = held
       \<and> cache_get held key = Undefined
       \<and> fetchFn held = (Fetched v, fetched_state)"
  with acquireLock_ends [of key 5000 now now s ws t st]
  obtain rest where "acquireLock key 5000 now ws now s
      = Some (True, st\<lparr> locks := (locks st)(key \<mapsto> t) \<rparr>, rest)"
    by auto
  with a show "getOrSet key fetchFn ws resume now s
        = Some \<lparr> outcome = Returned v,
                 final = (if v \<noteq> Undefined \<and> v \<noteq> Null
                          then fetched_state\<lparr> store := (store fetched_state)(key \<mapsto> v),
                                              locks := (locks fetched_state)(key := None) \<rparr>
                          else fetched_state\<lparr> locks := (locks fetched_state)(key := None) \<rparr>),
                 fetch_called = True \<rparr>"
    by (simp add: getOrSet_def Let_def releaseLock_def cache_set_def)
next
  assume a: "cache_get s key = Undefined
       \<and> find (ends_wait key 5000 now) (polls now s ws) = Some (t, st)
       \<and> locks st key = None
       \<and> resume (st\<lparr> locks := (locks st)(key \<mapsto> t) \<rparr>) = held
       \<and> cache_get held key = Undefined
       \<and> fetchFn held = (Threw e, fetched_state)"
  with acquireLock_ends [of key 5000 now now s ws t st]
  obtain rest where "acquireLock key 5000 now ws now s
      = Some (True, st\<lparr> locks := (locks st)(key \<mapsto> t) \<rparr>, rest)"
    by auto
  with a show "getOrSet key fetchFn ws resume now s
        = Some \<lparr> outcome = Raised e,
                 final = fetched_state\<lparr> locks := (locks fetched_state)(key := None) \<rparr>,
                 fetch_called = True \<rparr>"
    by (simp add: getOrSet_def Let_def releaseLock_def)
qed

theorem getOrSet_single_flight_witness:
  "cache_get hit_state ''k'' \<noteq> Undefined
   \<and> getOrSet ''k'' sample_fetch [] id 0 hit_state
       = Some \<lparr> outcome = Returned (Val 1), final = hit_state, fetch_called = False \<rparr>
   \<and> cache_get locked_state ''k'' = Undefined
   \<and> find (ends_wait ''k'' 5000 0) (polls 0 locked_state late_wakeups) = Some (6000, locked_state)
   \<and> takeWhile (Not \<circ> ends_wait ''k'' 5000 0) (polls 0 locked_state late_wakeups)
       = [(0, locked_state), (3000, locked_state)]
   \<and> locks locked_state ''k'' \<noteq> None
   \<and> getOrSet ''k'' sample_fetch late_wakeups id 0 locked_state
       = Some \<lparr> outcome = Returned Undefined, final = unlocked_state, fetch_called = False \<rparr>
   \<and> find (ends_wait ''k'' 5000 0) (polls 0 locked_state freed_wakeups) = Some (3000, unlocked_state)
   \<and> locks unlocked_state ''k'' = None
   \<and> getOrSet ''k'' sample_fetch freed_wakeups id 0 locked_state
       = Some \<lparr> outcome = Returned (Val 7),
                final = unlocked_state\<lparr> store := [''k'' \<mapsto> Val 7] \<rparr>, fetch_called = True \<rparr>
   \<and> cache_get unlocked_state ''k'' = Undefined
   \<and> find (ends_wait ''k'' 5000 0) (polls 0 unlocked_state []) = Some (0, unlocked_state)
   \<and> getOrSet ''k'' sample_fetch [] id 0 unlocked_state
       = Some \<lparr> outcome = Returned (Val 7),
                final = unlocked_state\<lparr> store := [''k'' \<mapsto> Val 7] \<rparr>, fetch_called = True \<rparr>"
proof -
  have hit: "cache_get hit_state ''k'' \<noteq> Undefined" "cache_get hit_state ''k'' = Val 1"
    by (simp_all add: cache_get_def hit_state_def unlocked_state_def)
  have miss: "cache_get locked_state ''k'' = Undefined" "cache_get unlocked_state ''k'' = Undefined"
    by (simp_all add: cache_get_def locked_state_def unlocked_state_def)
  have held: "locks locked_state ''k'' \<noteq> None" "locks unlocked_state ''k'' = None"
    by (simp_all add: locked_state_def unlocked_state_def)
  have late: "find (ends_wait ''k'' 5000 0) (polls 0 locked_state late_wakeups)
                = Some (6000, locked_state)"
    by (simp add: late_wakeups_def ends_wait_def locked_state_def unlocked_state_def)
  have before: "takeWhile (Not \<circ> ends_wait ''k'' 5000 0) (polls 0 locked_state late_wakeups)
       = [(0, locked_state), (3000, locked_state)]"
    by (simp add: late_wakeups_def ends_wait_def locked_state_def unlocked_state_def)
  have freed: "find (ends_wait ''k'' 5000 0) (polls 0 locked_state freed_wakeups)
                = Some (3000, unlocked_state)"
    by (simp add: freed_wakeups_def ends_wait_def locked_state_def unlocked_state_def)
  have free: "find (ends_wait ''k'' 5000 0) (polls 0 unlocked_state []) = Some (0, unlocked_state)"
    by (simp add: ends_wait_def unlocked_state_def)
  have removed: "locked_state\<lparr> locks := (locks locked_state)(''k'' := None) \<rparr> = unlocked_state"
    by (simp add: locked_state_def unlocked_state_def)
  have h3: "id (unlocked_state\<lparr> locks := (locks unlocked_state)(''k'' \<mapsto> 3000) \<rparr>)
              = unlocked_state\<lparr> locks := [''k'' \<mapsto> 3000] \<rparr>"
    by (simp add: unlocked_state_def)
  have h0: "id (unlocked_state\<lparr> locks := (locks unlocked_state)(''k'' \<mapsto> 0) \<rparr>)
              = unlocked_state\<lparr> locks := [''k'' \<mapsto> 0] \<rparr>"
    by (simp add: unlocked_state_def)
  have m3: "cache_get (unlocked_state\<lparr> locks := [''k'' \<mapsto> 3000] \<rparr>) ''k'' = Undefined"
    by (simp add: cache_get_def unlocked_state_def)
  have m0: "cache_get (unlocked_state\<lparr> locks := [''k'' \<mapsto> 0] \<rparr>) ''k'' = Undefined"
    by (simp add: cache_get_def unlocked_state_def)
  have f3: "sample_fetch (unlocked_state\<lparr> locks := [''k'' \<mapsto> 3000] \<rparr>)
              = (Fetched (Val 7), unlocked_state\<lparr> locks := [''k'' \<mapsto> 3000] \<rparr>)"
    by (simp add: sample_fetch_def)
  have f0: "sample_fetch (unlocked_state\<lparr> locks := [''k'' \<mapsto> 0] \<rparr>)
              = (Fetched (Val 7), unlocked_state\<lparr> locks := [''k'' \<mapsto> 0] \<rparr>)"
    by (simp add: sample_fetch_def)
  note h = getOrSet_single_flight [where s = hit_state and key = "''k''" and fetchFn = sample_fetch
      and ws = "[]" and resume = id and now = 0]
  note t = getOrSet_single_flight [where s = locked_state and key = "''k''"
      and fetchFn = sample_fetch and ws = late_wakeups and resume = id and now = 0
      and t = 6000 and st = locked_state]
  note w = getOrSet_single_flight [where s = locked_state and key = "''k''"
      and fetchFn = sample_fetch and ws = freed_wakeups and resume = id and now = 0
      and t = 3000 and st = unlocked_state
      and held = "unlocked_state\<lparr> locks := [''k'' \<mapsto> 3000] \<rparr>" and v = "Val 7"
      and fetched_state = "unlocked_state\<lparr> locks := [''k'' \<mapsto> 3000] \<rparr>"]
  note f = getOrSet_single_flight [where s = unlocked_state and key = "''k''"
      and fetchFn = sample_fetch and ws = "[]" and resume = id and now = 0
      and t = 0 and st = unlocked_state
      and held = "unlocked_state\<lparr> locks := [''k'' \<mapsto> 0] \<rparr>" and v = "Val 7"
      and fetched_state = "unlocked_state\<lparr> locks := [''k'' \<mapsto> 0] \<rparr>"]
  from h hit have 1: "getOrSet ''k'' sample_fetch [] id 0 hit_state
       = Some \<lparr> outcome = Returned (Val 1), final = hit_state, fetch_called = False \<rparr>"
    by simp
  from t miss(1) late held(1)
  have "getOrSet ''k'' sample_fetch late_wakeups id 0 locked_state
          = Some \<lparr> outcome = Returned (cache_get (id (locked_state\<lparr> locks := (locks locked_state)(''k'' := None) \<rparr>)) ''k''),
                   final = id (locked_state\<lparr> locks := (locks locked_state)(''k'' := None) \<rparr>),
                   fetch_called = False \<rparr>"
    by blast
  then have 2: "getOrSet ''k'' sample_fetch late_wakeups id 0 locked_state
       = Some \<lparr> outcome = Returned Undefined, final = unlocked_state, fetch_called = False \<rparr>"
    by (simp add: removed miss)
  from w miss(1) freed held(2) h3 m3 f3
  have "getOrSet ''k'' sample_fetch freed_wakeups id 0 locked_state
        = Some \<lparr> outcome = Returned (Val 7),
                 final = (if Val 7 \<noteq> (Undefined :: nat jsval) \<and> Val 7 \<noteq> (Null :: nat jsval)
                          then (unlocked_state\<lparr> locks := [''k'' \<mapsto> 3000] \<rparr>)
                                 \<lparr> store := (store (unlocked_state\<lparr> locks := [''k'' \<mapsto> 3000] \<rparr>))(''k'' \<mapsto> Val 7),
                                   locks := (locks (unlocked_state\<lparr> locks := [''k'' \<mapsto> 3000] \<rparr>))(''k'' := None) \<rparr>
                          else (unlocked_state\<lparr> locks := [''k'' \<mapsto> 3000] \<rparr>)
                                 \<lparr> locks := (locks (unlocked_state\<lparr> locks := [''k'' \<mapsto> 3000] \<rparr>))(''k'' := None) \<rparr>),
                 fetch_called = True \<rparr>"
    by blast
  then have 3: "getOrSet ''k'' sample_fetch freed_wakeups id 0 locked_state
       = Some \<lparr> outcome = Returned (Val 7),
                final = unlocked_state\<lparr> store := [''k'' \<mapsto> Val 7] \<rparr>, fetch_called = True \<rparr>"
    by (simp add: unlocked_state_def)
  from f miss(2) free held(2) h0 m0 f0
  have "getOrSet ''k'' sample_fetch [] id 0 unlocked_state
        = Some \<lparr> outcome = Returned (Val 7),
                 final = (if Val 7 \<noteq> (Undefined :: nat jsval) \<and> Val 7 \<noteq> (Null :: nat jsval)
                          then (unlocked_state\<lparr> locks := [''k'' \<mapsto> 0] \<rparr>)
                                 \<lparr> store := (store (unlocked_state\<lparr> locks := [''k'' \<mapsto> 0] \<rparr>))(''k'' \<mapsto> Val 7),
                                   locks := (locks (unlocked_state\<lparr> locks := [''k'' \<mapsto> 0] \<rparr>))(''k'' := None) \<rparr>
                          else (unlocked_state\<lparr> locks := [''k'' \<mapsto> 0] \<rparr>)
                                 \<lparr> locks := (locks (unlocked_state\<lparr> locks := [''k'' \<mapsto> 0] \<rparr>))(''k'' := None) \<rparr>),
                 fetch_called = True \<rparr>"
    by blast
  then have 4: "getOrSet ''k'' sample_fetch [] id 0 unlocked_state
       = Some \<lparr> outcome = Returned (Val 7),
                final = unlocked_state\<lparr> store := [''k'' \<mapsto> Val 7] \<rparr>, fetch_called = True \<rparr>"
    by (simp add: unlocked_state_def)
  from hit(1) 1 miss(1) late before held(1) 2 freed held(2) 3 miss(2) free 4 show ?thesis
    by (intro conjI)
qed

lemma forced_started:
  "inFlightRequests (snd (analyzeToken_call (snd (analyzeToken_call (new_analyzer :: nat analyzer)
      ''0xAa'' False)) ''0xAa'' True)) (''0xAa'', True) = Some 1"
  "promise_key (snd (analyzeToken_call (snd (analyzeToken_call (new_analyzer :: nat analyzer)
      ''0xAa'' False)) ''0xAa'' True)) 1 = Some (''0xAa'', True)"
  "inFlightRequests (snd (analyzeToken_call (snd (analyzeToken_call (new_analyzer :: nat analyzer)
      ''0xAa'' False)) ''0xAa'' True)) (''0xAa'', False) = Some 0"
  by (simp_all add: analyzeToken_call_def join_or_start_def clearAllCachesForToken_def
      new_analyzer_def)

lemma overtaken_facts:
  "analysis_cache overtaken ''0xAa'' = Some fresh_analysis"
  "inFlightRequests overtaken (''0xAa'', False) = Some 0"
  unfolding overtaken_def settle_def forced_started Let_def
  by (simp_all add: forced_started)

text \<open>
  Claim C9. The claim says that a second invocation for the same address and
  \<open>forceRefresh\<close>, made while the first analysis is in flight, awaits the promise in
  flight and returns its result with \<open>meta.deduplicated = true\<close>. The cache is consulted
  before the promises in flight: when a forced analysis of the token has finished in the
  meantime, the second unforced invocation returns the cached analysis, marked
  \<open>cached\<close> and not \<open>deduplicated\<close>, while the first is still in flight.
\<close>

theorem second_call_served_from_cache:
  "reachable overtaken
   \<and> inFlightRequests overtaken (''0xAa'', False) = Some 0
   \<and> fst (analyzeToken_call overtaken ''0xAa'' False)
       = ReturnsCached \<lparr> content = 1,
           meta = \<lparr> cached = True, deduplicated = False, waitedForInFlight = False \<rparr> \<rparr>
   \<and> fst (analyzeToken_call overtaken ''0xAa'' False) \<noteq> AwaitsInFlight 0"
proof -
  have "reachable (snd (analyzeToken_call (snd (analyzeToken_call (new_analyzer :: nat analyzer)
                    ''0xAa'' False)) ''0xAa'' True))"
    by (intro reachable.call reachable.start)
  moreover note forced_started(1)
  ultimately have r: "reachable overtaken"
    unfolding overtaken_def by (rule reachable.settles)
  have c: "fst (analyzeToken_call overtaken ''0xAa'' False)
       = ReturnsCached \<lparr> content = 1,
           meta = \<lparr> cached = True, deduplicated = False, waitedForInFlight = False \<rparr> \<rparr>"
    by (simp add: overtaken_facts analyzeToken_call_def fresh_analysis_def)
  have i: "inFlightRequests overtaken (''0xAa'', False) = Some 0"
    by (simp add: overtaken_facts)
  from r i c show ?thesis
    by simp
qed


text \<open>In every reachable state a promise in flight under a key was started for that key.\<close>

lemma in_flight_key:
  "reachable s \<Longrightarrow> inFlightRequests s k = Some p \<Longrightarrow> promise_key s p = Some k \<and> p < performed s"
proof (induction arbitrary: k p rule: reachable.induct)
  case start
  then show ?case by (simp add: new_analyzer_def)
next
  case (call s addr forceRefresh)
  let ?s = "if forceRefresh then clearAllCachesForToken addr s else s"
  have same: "inFlightRequests ?s = inFlightRequests s" "promise_key ?s = promise_key s"
      "performed ?s = performed s"
    by (simp_all add: clearAllCachesForToken_def)
  show ?case
  proof (cases "\<not> forceRefresh \<and> analysis_cache s addr \<noteq> None")
    case True
    then have "snd (analyzeToken_call s addr forceRefresh) = s"
      by (auto simp: analyzeToken_call_def)
    with call show ?thesis by simp
  next
    case False
    then have eq: "snd (analyzeToken_call s addr forceRefresh) = snd (join_or_start addr forceRefresh ?s)"
      by (auto simp: analyzeToken_call_def)
    show ?thesis
    proof (cases "inFlightRequests s (addr, forceRefresh)")
      case None
      with call.prems eq same have "k = (addr, forceRefresh) \<and> p = performed s
          \<or> k \<noteq> (addr, forceRefresh) \<and> inFlightRequests s k = Some p"
        by (auto simp: join_or_start_def split: if_splits)
      then show ?thesis
      proof
        assume "k = (addr, forceRefresh) \<and> p = performed s"
        with None eq same show ?thesis
          by (simp add: join_or_start_def)
      next
        assume a: "k \<noteq> (addr, forceRefresh) \<and> inFlightRequests s k = Some p"
        then have "promise_key s p = Some k \<and> p < performed s"
          using call.IH by blast
        with None eq same show ?thesis
          by (auto simp: join_or_start_def)
      qed
    next
      case (Some q)
      with eq same have "snd (analyzeToken_call s addr forceRefresh) = ?s"
        by (simp add: join_or_start_def)
      with call show ?thesis
        by (simp add: clearAllCachesForToken_def split: if_splits)
    qed
  qed
next
  case (settles s k' p' out)
  from settles.hyps(2) settles.IH have pk: "promise_key s p' = Some k'"
    by blast
  from settles.prems pk have "inFlightRequests s k = Some p"
    by (cases out) (auto simp: settle_def Let_def split: if_splits)
  then have "promise_key s p = Some k \<and> p < performed s"
    using settles.IH by blast
  then show ?case
    using pk by (cases out) (simp_all add: settle_def Let_def)
next
  case (expires s addr)
  then show ?case by simp
qed

text \<open>
  Claim C9, amended. In a reachable state with an analysis in flight for an address and
  \<open>forceRefresh\<close>, a further invocation with the same two arguments, made with
  \<open>forceRefresh\<close> set or with no analysis of the address in the cache, starts no analysis:
  it awaits the promise in flight, returns its result marked \<open>deduplicated\<close> when the
  promise fulfils, and the entry of the key is gone once the promise settles. With
  \<open>forceRefresh\<close> unset and an analysis in the cache, the invocation returns the cached
  analysis marked \<open>cached\<close>, and starts no analysis either.
\<close>

theorem second_call_deduplicated:
  assumes "reachable s" and "inFlightRequests s (addr, forceRefresh) = Some p"
  shows "(forceRefresh \<or> analysis_cache s addr = None \<longrightarrow>
            fst (analyzeToken_call s addr forceRefresh) = AwaitsInFlight p
            \<and> performed (snd (analyzeToken_call s addr forceRefresh)) = performed s
            \<and> (\<exists>r'. analyzeToken_return (fst (analyzeToken_call s addr forceRefresh)) (Fulfilled r)
                       = Fulfilled r'
                    \<and> content r' = content r \<and> deduplicated (meta r'))
            \<and> inFlightRequests (settle (snd (analyzeToken_call s addr forceRefresh)) p out)
                 (addr, forceRefresh) = None)
         \<and> (\<not> forceRefresh \<and> analysis_cache s addr = Some c \<longrightarrow>
            fst (analyzeToken_call s addr forceRefresh)
              = ReturnsCached (c\<lparr> meta := (meta c)\<lparr> cached := True \<rparr> \<rparr>)
            \<and> snd (analyzeToken_call s addr forceRefresh) = s)"
proof (intro conjI impI)
  assume miss: "forceRefresh \<or> analysis_cache s addr = None"
  let ?s = "if forceRefresh then clearAllCachesForToken addr s else s"
  from miss assms(2) have call: "analyzeToken_call s addr forceRefresh = (AwaitsInFlight p, ?s)"
    by (auto simp: analyzeToken_call_def join_or_start_def clearAllCachesForToken_def)
  from call show "fst (analyzeToken_call s addr forceRefresh) = AwaitsInFlight p"
    by simp
  from call show "performed (snd (analyzeToken_call s addr forceRefresh)) = performed s"
    by (simp add: clearAllCachesForToken_def)
  from call show "\<exists>r'. analyzeToken_return (fst (analyzeToken_call s addr forceRefresh)) (Fulfilled r)
                       = Fulfilled r'
                    \<and> content r' = content r \<and> deduplicated (meta r')"
    by (simp add: analyzeToken_return_def)
  from assms have "promise_key s p = Some (addr, forceRefresh)"
    using in_flight_key by blast
  then have "promise_key ?s p = Some (addr, forceRefresh)"
    by (simp add: clearAllCachesForToken_def)
  then have "inFlightRequests (settle ?s p out) (addr, forceRefresh) = None"
    by (cases out) (simp_all add: settle_def Let_def)
  with call show "inFlightRequests (settle (snd (analyzeToken_call s addr forceRefresh)) p out)
                 (addr, forceRefresh) = None"
    by simp
next
  assume hit: "\<not> forceRefresh \<and> analysis_cache s addr = Some c"
  then show "fst (analyzeToken_call s addr forceRefresh)
              = ReturnsCached (c\<lparr> meta := (meta c)\<lparr> cached := True \<rparr> \<rparr>)"
    "snd (analyzeToken_call s addr forceRefresh) = s"
    by (simp_all add: analyzeToken_call_def)
qed

theorem second_call_deduplicated_witness:
  "reachable first_started
   \<and> inFlightRequests first_started (''0xAa'', False) = Some 0
   \<and> (False \<or> analysis_cache first_started ''0xAa'' = None)
   \<and> fst (analyzeToken_call first_started ''0xAa'' False) = AwaitsInFlight 0
   \<and> performed (snd (analyzeToken_call first_started ''0xAa'' False)) = performed first_started
   \<and> inFlightRequests (settle (snd (analyzeToken_call first_started ''0xAa'' False)) 0
        (Fulfilled fresh_analysis)) (''0xAa'', False) = None
   \<and> reachable overtaken
   \<and> inFlightRequests overtaken (''0xAa'', False) = Some 0
   \<and> analysis_cache overtaken ''0xAa'' = Some fresh_analysis
   \<and> snd (analyzeToken_call overtaken ''0xAa'' False) = overtaken"
proof -
  have r1: "reachable first_started"
    unfolding first_started_def by (intro reachable.call reachable.start)
  have f1: "inFlightRequests first_started (''0xAa'', False) = Some 0"
      "analysis_cache first_started ''0xAa'' = None"
    by (simp_all add: first_started_def analyzeToken_call_def join_or_start_def new_analyzer_def)
  have "reachable (snd (analyzeToken_call (snd (analyzeToken_call (new_analyzer :: nat analyzer)
                    ''0xAa'' False)) ''0xAa'' True))"
    by (intro reachable.call reachable.start)
  then have r2: "reachable overtaken"
    unfolding overtaken_def using forced_started(1) by (rule reachable.settles)
  note a = second_call_deduplicated [OF r1 f1(1), where r = fresh_analysis
      and out = "Fulfilled fresh_analysis"]
  note b = second_call_deduplicated [OF r2 overtaken_facts(2), where c = fresh_analysis]
  from a f1 have 1: "fst (analyzeToken_call first_started ''0xAa'' False) = AwaitsInFlight 0"
      "performed (snd (analyzeToken_call first_started ''0xAa'' False)) = performed first_started"
      "inFlightRequests (settle (snd (analyzeToken_call first_started ''0xAa'' False)) 0
        (Fulfilled fresh_analysis)) (''0xAa'', False) = None"
    by blast+
  from b overtaken_facts have 2: "snd (analyzeToken_call overtaken ''0xAa'' False) = overtaken"
    by blast
  from r1 f1 1 r2 overtaken_facts 2 show ?thesis
    by simp
qed

lemma js_add_NaN [simp]: "js_add x NaN = NaN"
  by (cases x) simp_all


lemma js_mul_Finite_Finite: "js_mul (Finite a) (Finite b) \<noteq> PosInf"
  by simp

















end
